theory Spec2Isabelle
  imports Complex_Main
begin

section \<open>Data model\<close>

text \<open>
  Modelled from the spec: the enumerations \<open>CELL_LOC\<close> and \<open>DIFF_METHOD\<close> are declared in a
  header that is not among the files. The code names only \<open>CELL_DEFAULT\<close> and \<open>DIFF_DEFAULT\<close>;
  the other enumerators stand for the cell centre, the face-offset locations of the glossary
  and the differencing schemes a selector can name.
\<close>

datatype CELL_LOC = CELL_DEFAULT | CELL_CENTRE | CELL_XLOW | CELL_YLOW | CELL_ZLOW | CELL_VSHIFT

datatype DIFF_METHOD = DIFF_DEFAULT | DIFF_U1 | DIFF_C2 | DIFF_W2 | DIFF_W3 | DIFF_C4 | DIFF_U4 | DIFF_FFT

text \<open>
  Modelled from the spec: the classes \<open>Field2D\<close> and \<open>Field3D\<close> are not among the files. A field
  carries a cell location tag (\<open>getLocation()\<close>, \<open>setLocation()\<close>) and backing storage that may
  be unallocated: \<open>getData()\<close> returns a null pointer then, here \<open>None\<close>. Allocated storage is
  addressed by grid indices (\<open>d[jx][jy]\<close>, \<open>d[jx][jy][jz]\<close>); the extent of the arrays is not
  modelled. The values are of an arbitrary type \<open>'r\<close> (\<open>BoutReal\<close>): the codec only copies
  them.
\<close>

record 'r Field2D =
  loc2d :: CELL_LOC
  data2d :: "(int \<Rightarrow> int \<Rightarrow> 'r) option"

record 'r Field3D =
  loc3d :: CELL_LOC
  data3d :: "(int \<Rightarrow> int \<Rightarrow> int \<Rightarrow> 'r) option"

text \<open>\<open>Vector2D\<close> and \<open>Vector3D\<close>: three components \<open>x\<close>, \<open>y\<close>, \<open>z\<close> and the basis flag.\<close>

record 'f Vector =
  comp_x :: 'f
  comp_y :: 'f
  comp_z :: 'f
  covariant :: bool

text \<open>
  \<open>VarStr<T>\<close>: pointers to an evolving variable (\<open>var\<close>) and to its time derivative (\<open>F_var\<close>),
  the declared location and the declared basis (the member \<open>covariant\<close> of the structure).
\<close>

record 'a VarStr =
  var :: 'a
  F_var :: 'a
  location :: CELL_LOC
  vs_covariant :: bool

text \<open>
  The registry holds pointers (\<open>f2d[i].var->getData()\<close>, \<open>v3d[i].var->toCovariant()\<close>), so the
  objects live in a store, addressed by the pointers: the 2D fields, the 3D fields, and the
  2D and 3D vector objects. A vector object is the addresses of its three component fields,
  which are fields of the store like any other, and its basis flag. Two pointers of the
  registry may be equal, and a component of a registered vector may be the field a scalar
  entry points to.
\<close>

type_synonym addr = nat

record 'r Store =
  fields2 :: "addr \<Rightarrow> 'r Field2D"
  fields3 :: "addr \<Rightarrow> 'r Field3D"
  vectors2 :: "addr \<Rightarrow> addr Vector"
  vectors3 :: "addr \<Rightarrow> addr Vector"

text \<open>
  The variable registry of the solver: the vectors \<open>f2d\<close>, \<open>f3d\<close>, \<open>v2d\<close>, \<open>v3d\<close> of descriptors.
  The codec reads the registry and never changes it.
\<close>

record Solver_vars =
  f2d :: "addr VarStr list"
  f3d :: "addr VarStr list"
  v2d :: "addr VarStr list"
  v3d :: "addr VarStr list"

text \<open>
  What the codec reads of the mesh. The two boundary iterators (\<open>RangeIter\<close>) are the finite
  sequences of \<open>ind\<close> values they produce between \<open>first()\<close> and \<open>isDone()\<close>.
\<close>

record Mesh =
  xstart :: int
  xend :: int
  ystart :: int
  yend :: int
  ngx :: int
  ngy :: int
  ngz :: int
  firstX :: bool
  lastX :: bool
  iterateBndryLowerY :: "int list"
  iterateBndryUpperY :: "int list"

datatype SOLVER_VAR_OP = LOAD_VARS | SAVE_VARS | SAVE_DERIVS

text \<open>
  Two accesses of the codec are undefined in C++ and are faults of the model: reading or
  writing through the null data pointer of an unallocated field, and indexing \<open>udata\<close> past
  its end.
\<close>

datatype fault = NullData | BufferOverrun

definition bindF :: "fault + 'a \<Rightarrow> ('a \<Rightarrow> fault + 'b) \<Rightarrow> fault + 'b" where
  "bindF r k = (case r of Inl e \<Rightarrow> Inl e | Inr a \<Rightarrow> k a)"

section \<open>Loops\<close>

text \<open>\<open>for (j = lo; j < n; j++) body\<close> over \<open>int\<close>, stopping at the first fault.\<close>

function for_int :: "int \<Rightarrow> int \<Rightarrow> (int \<Rightarrow> 's \<Rightarrow> fault + 's) \<Rightarrow> 's \<Rightarrow> fault + 's" where
  "for_int j n body s =
     (if j < n then (case body j s of Inl e \<Rightarrow> Inl e | Inr s' \<Rightarrow> for_int (j + 1) n body s')
      else Inr s)"
  by pat_completeness auto
termination
  by (relation "measure (\<lambda>(j, n, body, s). nat (n - j))") auto

text \<open>\<open>for (i = lo; i < n; i++) body\<close> over \<open>unsigned int\<close>.\<close>

function for_nat :: "nat \<Rightarrow> nat \<Rightarrow> (nat \<Rightarrow> 's \<Rightarrow> fault + 's) \<Rightarrow> 's \<Rightarrow> fault + 's" where
  "for_nat i n body s =
     (if i < n then (case body i s of Inl e \<Rightarrow> Inl e | Inr s' \<Rightarrow> for_nat (Suc i) n body s')
      else Inr s)"
  by pat_completeness auto
termination
  by (relation "measure (\<lambda>(i, n, body, s). n - i)") auto

text \<open>\<open>for (xi->first(); !xi->isDone(); xi->next()) body\<close> over the indices of an iterator.\<close>

primrec for_iter :: "'i list \<Rightarrow> ('i \<Rightarrow> 's \<Rightarrow> fault + 's) \<Rightarrow> 's \<Rightarrow> fault + 's" where
  "for_iter [] body s = Inr s"
| "for_iter (x # xs) body s =
     (case body x s of Inl e \<Rightarrow> Inl e | Inr s' \<Rightarrow> for_iter xs body s')"

section \<open>The state vector codec (\<open>PetscSolver\<close>)\<close>

text \<open>
  The state of a traversal: the store, the flat buffer \<open>udata\<close> and the counter \<open>p\<close> that
  \<open>loop_vars_op\<close> takes by reference. Grid indices are the \<open>int\<close> of the code, taken
  unbounded; \<open>p\<close> starts at \<open>0\<close> and only grows, so it is a natural number.
\<close>

type_synonym 'r cstate = "'r Store \<times> 'r list \<times> nat"

definition store2 :: "(int \<Rightarrow> int \<Rightarrow> 'r) \<Rightarrow> int \<Rightarrow> int \<Rightarrow> 'r \<Rightarrow> int \<Rightarrow> int \<Rightarrow> 'r" where
  "store2 d jx jy a = d(jx := (d jx)(jy := a))"

definition store3 :: "(int \<Rightarrow> int \<Rightarrow> int \<Rightarrow> 'r) \<Rightarrow> int \<Rightarrow> int \<Rightarrow> int \<Rightarrow> 'r \<Rightarrow> int \<Rightarrow> int \<Rightarrow> int \<Rightarrow> 'r" where
  "store3 d jx jy jz a = d(jx := (d jx)(jy := (d jx jy)(jz := a)))"

text \<open>\<open>d2d = f2d[i].var->getData(); d2d[jx][jy] = udata[p]; p++;\<close>\<close>

definition load_2d :: "Solver_vars \<Rightarrow> int \<Rightarrow> int \<Rightarrow> nat \<Rightarrow> 'r cstate \<Rightarrow> fault + 'r cstate" where
  "load_2d R jx jy i s =
     (case s of (h, u, p) \<Rightarrow>
        (case data2d (fields2 h (var (f2d R ! i))) of
           None \<Rightarrow> Inl NullData
         | Some d \<Rightarrow>
             if p < length u
             then Inr (h\<lparr>fields2 := (fields2 h)(var (f2d R ! i) :=
                          (fields2 h (var (f2d R ! i)))\<lparr>data2d := Some (store2 d jx jy (u ! p))\<rparr>)\<rparr>,
                       u, Suc p)
             else Inl BufferOverrun))"

text \<open>\<open>d3d = f3d[i].var->getData(); d3d[jx][jy][jz] = udata[p]; p++;\<close>\<close>

definition load_3d :: "Solver_vars \<Rightarrow> int \<Rightarrow> int \<Rightarrow> int \<Rightarrow> nat \<Rightarrow> 'r cstate \<Rightarrow> fault + 'r cstate" where
  "load_3d R jx jy jz i s =
     (case s of (h, u, p) \<Rightarrow>
        (case data3d (fields3 h (var (f3d R ! i))) of
           None \<Rightarrow> Inl NullData
         | Some d \<Rightarrow>
             if p < length u
             then Inr (h\<lparr>fields3 := (fields3 h)(var (f3d R ! i) :=
                          (fields3 h (var (f3d R ! i)))\<lparr>data3d := Some (store3 d jx jy jz (u ! p))\<rparr>)\<rparr>,
                       u, Suc p)
             else Inl BufferOverrun))"

text \<open>\<open>d2d = f2d[i].var->getData(); udata[p] = d2d[jx][jy]; p++;\<close>\<close>

definition save_2d :: "Solver_vars \<Rightarrow> int \<Rightarrow> int \<Rightarrow> nat \<Rightarrow> 'r cstate \<Rightarrow> fault + 'r cstate" where
  "save_2d R jx jy i s =
     (case s of (h, u, p) \<Rightarrow>
        (case data2d (fields2 h (var (f2d R ! i))) of
           None \<Rightarrow> Inl NullData
         | Some d \<Rightarrow> if p < length u then Inr (h, u[p := d jx jy], Suc p) else Inl BufferOverrun))"

definition save_3d :: "Solver_vars \<Rightarrow> int \<Rightarrow> int \<Rightarrow> int \<Rightarrow> nat \<Rightarrow> 'r cstate \<Rightarrow> fault + 'r cstate" where
  "save_3d R jx jy jz i s =
     (case s of (h, u, p) \<Rightarrow>
        (case data3d (fields3 h (var (f3d R ! i))) of
           None \<Rightarrow> Inl NullData
         | Some d \<Rightarrow> if p < length u then Inr (h, u[p := d jx jy jz], Suc p) else Inl BufferOverrun))"

text \<open>\<open>d2d = f2d[i].F_var->getData(); udata[p] = d2d[jx][jy]; p++;\<close>\<close>

definition save_deriv_2d :: "Solver_vars \<Rightarrow> int \<Rightarrow> int \<Rightarrow> nat \<Rightarrow> 'r cstate \<Rightarrow> fault + 'r cstate" where
  "save_deriv_2d R jx jy i s =
     (case s of (h, u, p) \<Rightarrow>
        (case data2d (fields2 h (F_var (f2d R ! i))) of
           None \<Rightarrow> Inl NullData
         | Some d \<Rightarrow> if p < length u then Inr (h, u[p := d jx jy], Suc p) else Inl BufferOverrun))"

definition save_deriv_3d :: "Solver_vars \<Rightarrow> int \<Rightarrow> int \<Rightarrow> int \<Rightarrow> nat \<Rightarrow> 'r cstate \<Rightarrow> fault + 'r cstate" where
  "save_deriv_3d R jx jy jz i s =
     (case s of (h, u, p) \<Rightarrow>
        (case data3d (fields3 h (F_var (f3d R ! i))) of
           None \<Rightarrow> Inl NullData
         | Some d \<Rightarrow> if p < length u then Inr (h, u[p := d jx jy jz], Suc p) else Inl BufferOverrun))"

text \<open>
  \<open>PetscSolver::loop_vars_op(jx, jy, udata, p, op)\<close>. The sizes \<open>n2d\<close> and \<open>n3d\<close> are read once,
  on entry; the plane loop runs \<open>jz\<close> from \<open>0\<close> while \<open>jz < mesh->ngz-1\<close>.
\<close>

definition loop_vars_op :: "Solver_vars \<Rightarrow> Mesh \<Rightarrow> int \<Rightarrow> int \<Rightarrow> SOLVER_VAR_OP \<Rightarrow> 'r cstate \<Rightarrow> fault + 'r cstate" where
  "loop_vars_op R mesh jx jy op s =
     (let n2d = length (f2d R); n3d = length (f3d R) in
      case op of
        LOAD_VARS \<Rightarrow>
          bindF (for_nat 0 n2d (load_2d R jx jy) s)
            (for_int 0 (ngz mesh - 1) (\<lambda>jz. for_nat 0 n3d (load_3d R jx jy jz)))
      | SAVE_VARS \<Rightarrow>
          bindF (for_nat 0 n2d (save_2d R jx jy) s)
            (for_int 0 (ngz mesh - 1) (\<lambda>jz. for_nat 0 n3d (save_3d R jx jy jz)))
      | SAVE_DERIVS \<Rightarrow>
          bindF (for_nat 0 n2d (save_deriv_2d R jx jy) s)
            (for_int 0 (ngz mesh - 1) (\<lambda>jz. for_nat 0 n3d (save_deriv_3d R jx jy jz))))"

text \<open>
  \<open>PetscSolver::loop_vars(udata, op)\<close>: the five regions in the order of the code, with
  \<open>MYSUB = yend - ystart + 1\<close>; \<open>jx <= xend\<close> is written \<open>jx < xend + 1\<close>. The counter starts
  at \<open>0\<close> and is local, so the result is the store and the buffer.
\<close>

definition loop_vars :: "Solver_vars \<Rightarrow> Mesh \<Rightarrow> SOLVER_VAR_OP \<Rightarrow> 'r Store \<Rightarrow> 'r list \<Rightarrow> fault + ('r Store \<times> 'r list)" where
  "loop_vars R mesh op h udata =
     (let MYSUB = yend mesh - ystart mesh + 1 in
      bindF
        (if firstX mesh
         then for_int 0 (xstart mesh) (\<lambda>jx.
                for_int 0 MYSUB (\<lambda>jy. loop_vars_op R mesh jx (jy + ystart mesh) op)) (h, udata, 0)
         else Inr (h, udata, 0))
      (\<lambda>s1. bindF
        (for_iter (iterateBndryLowerY mesh) (\<lambda>ind.
           for_int 0 (ystart mesh) (\<lambda>jy. loop_vars_op R mesh ind jy op)) s1)
      (\<lambda>s2. bindF
        (for_int (xstart mesh) (xend mesh + 1) (\<lambda>jx.
           for_int (ystart mesh) (yend mesh + 1) (\<lambda>jy. loop_vars_op R mesh jx jy op)) s2)
      (\<lambda>s3. bindF
        (for_iter (iterateBndryUpperY mesh) (\<lambda>ind.
           for_int (yend mesh + 1) (ngy mesh) (\<lambda>jy. loop_vars_op R mesh ind jy op)) s3)
      (\<lambda>s4. bindF
        (if lastX mesh
         then for_int (xend mesh + 1) (ngx mesh) (\<lambda>jx.
                for_int (ystart mesh) (yend mesh + 1) (\<lambda>jy. loop_vars_op R mesh jx jy op)) s4
         else Inr s4)
      (\<lambda>s5. Inr (fst s5, fst (snd s5))))))))"

subsection \<open>The canonical order, as the specification words it\<close>

text \<open>
  A position of the flat buffer holds one value of one variable at one mesh point: the
  \<open>i\<close>-th 2D variable, or the \<open>i\<close>-th 3D variable on the toroidal plane \<open>jz\<close>.
\<close>

datatype slot = Slot2D nat | Slot3D int nat

text \<open>
  Within a point: all 2D variables in registration order, then, plane by plane from \<open>0\<close> to
  \<open>planes - 1\<close>, all 3D variables in registration order.
\<close>

definition point_slots :: "nat \<Rightarrow> nat \<Rightarrow> int \<Rightarrow> slot list" where
  "point_slots n2d n3d planes =
     map Slot2D [0..<n2d] @ [Slot3D jz i. jz \<leftarrow> [0..planes - 1], i \<leftarrow> [0..<n3d]]"

text \<open>
  The points: the inner X stripe (on the process that owns it; X outer, Y inner over the
  interior Y range), the lower Y boundary (iterator index outer, Y inner), the bulk (X outer,
  Y inner), the upper Y boundary, and the outer X stripe (on the owning process).
\<close>

definition traversal :: "Mesh \<Rightarrow> (int \<times> int) list" where
  "traversal m =
     (if firstX m then [(jx, jy). jx \<leftarrow> [0..xstart m - 1], jy \<leftarrow> [ystart m..yend m]] else [])
     @ [(ind, jy). ind \<leftarrow> iterateBndryLowerY m, jy \<leftarrow> [0..ystart m - 1]]
     @ [(jx, jy). jx \<leftarrow> [xstart m..xend m], jy \<leftarrow> [ystart m..yend m]]
     @ [(ind, jy). ind \<leftarrow> iterateBndryUpperY m, jy \<leftarrow> [yend m + 1..ngy m - 1]]
     @ (if lastX m then [(jx, jy). jx \<leftarrow> [xend m + 1..ngx m - 1], jy \<leftarrow> [ystart m..yend m]] else [])"

text \<open>The layout of the buffer: entry \<open>k\<close> says what buffer position \<open>k\<close> holds.\<close>

definition layout :: "Mesh \<Rightarrow> nat \<Rightarrow> nat \<Rightarrow> (int \<times> int \<times> slot) list" where
  "layout m n2d n3d =
     [(fst pt, snd pt, sl). pt \<leftarrow> traversal m, sl \<leftarrow> point_slots n2d n3d (ngz m - 1)]"

text \<open>
  The value a layout entry stands for: of the evolving variable (\<open>deriv = False\<close>) or of its
  time derivative.
\<close>

fun slot_value :: "bool \<Rightarrow> Solver_vars \<Rightarrow> 'r Store \<Rightarrow> int \<times> int \<times> slot \<Rightarrow> fault + 'r" where
  "slot_value deriv R h (jx, jy, Slot2D i) =
     (case data2d (fields2 h ((if deriv then F_var else var) (f2d R ! i))) of
        None \<Rightarrow> Inl NullData | Some d \<Rightarrow> Inr (d jx jy))"
| "slot_value deriv R h (jx, jy, Slot3D jz i) =
     (case data3d (fields3 h ((if deriv then F_var else var) (f3d R ! i))) of
        None \<Rightarrow> Inl NullData | Some d \<Rightarrow> Inr (d jx jy jz))"

text \<open>Storing a value into the evolving variable a layout entry stands for.\<close>

fun slot_store :: "Solver_vars \<Rightarrow> 'r Store \<Rightarrow> int \<times> int \<times> slot \<Rightarrow> 'r \<Rightarrow> fault + 'r Store" where
  "slot_store R h (jx, jy, Slot2D i) a =
     (case data2d (fields2 h (var (f2d R ! i))) of
        None \<Rightarrow> Inl NullData
      | Some d \<Rightarrow> Inr (h\<lparr>fields2 := (fields2 h)(var (f2d R ! i) :=
                     (fields2 h (var (f2d R ! i)))\<lparr>data2d := Some (store2 d jx jy a)\<rparr>)\<rparr>))"
| "slot_store R h (jx, jy, Slot3D jz i) a =
     (case data3d (fields3 h (var (f3d R ! i))) of
        None \<Rightarrow> Inl NullData
      | Some d \<Rightarrow> Inr (h\<lparr>fields3 := (fields3 h)(var (f3d R ! i) :=
                     (fields3 h (var (f3d R ! i)))\<lparr>data3d := Some (store3 d jx jy jz a)\<rparr>)\<rparr>))"

text \<open>
  One transfer between buffer position \<open>k\<close> and the variable of a layout entry: LOAD copies
  the buffer value into the variable, SAVE and SAVE\_DERIVS copy the value of the variable
  (of its time derivative) into the buffer.
\<close>

definition transfer :: "SOLVER_VAR_OP \<Rightarrow> Solver_vars \<Rightarrow> int \<times> int \<times> slot \<Rightarrow> nat \<Rightarrow> 'r Store \<times> 'r list \<Rightarrow> fault + ('r Store \<times> 'r list)" where
  "transfer op R e k s =
     (case s of (h, u) \<Rightarrow>
        (case op of
           LOAD_VARS \<Rightarrow>
             bindF (slot_store R h e (u ! k))
               (\<lambda>h'. if k < length u then Inr (h', u) else Inl BufferOverrun)
         | SAVE_VARS \<Rightarrow>
             bindF (slot_value False R h e)
               (\<lambda>a. if k < length u then Inr (h, u[k := a]) else Inl BufferOverrun)
         | SAVE_DERIVS \<Rightarrow>
             bindF (slot_value True R h e)
               (\<lambda>a. if k < length u then Inr (h, u[k := a]) else Inl BufferOverrun)))"

text \<open>The entries of a layout transferred in order, the first at buffer position \<open>k\<close>.\<close>

primrec run_layout :: "SOLVER_VAR_OP \<Rightarrow> Solver_vars \<Rightarrow> (int \<times> int \<times> slot) list \<Rightarrow> nat \<Rightarrow> 'r Store \<times> 'r list \<Rightarrow> fault + ('r Store \<times> 'r list)" where
  "run_layout op R [] k s = Inr s"
| "run_layout op R (e # es) k s = bindF (transfer op R e k s) (run_layout op R es (Suc k))"

text \<open>A transfer at the position the running counter holds, which then moves on by one.\<close>

definition step :: "SOLVER_VAR_OP \<Rightarrow> Solver_vars \<Rightarrow> int \<times> int \<times> slot \<Rightarrow> 'r cstate \<Rightarrow> fault + 'r cstate" where
  "step op R e s =
     (case s of (h, u, p) \<Rightarrow>
        bindF (transfer op R e p (h, u)) (\<lambda>r. Inr (fst r, snd r, Suc p)))"

subsection \<open>SAVE, LOAD and SAVE\_DERIVS\<close>

text \<open>
  The field and vector classes and the interpolation routine are not among the files. What
  the code calls of them is a parameter of the model: the contents of storage that
  \<open>allocate()\<close> has just obtained, the basis conversions of the vector classes, \<open>interp_to\<close>,
  the location a freshly constructed field has, and the arithmetic operators of the field
  classes (\<open>div_3_2 a b\<close> is \<open>a / b\<close> for a \<open>Field3D\<close> \<open>a\<close> and a \<open>Field2D\<close> \<open>b\<close>, \<open>div_3_r\<close> divides a
  \<open>Field3D\<close> by a \<open>BoutReal\<close>, and so on; \<open>SQ\<close> is the squaring macro).
\<close>

record 'r Field_lib =
  default_location :: CELL_LOC
  fresh2D :: "int \<Rightarrow> int \<Rightarrow> 'r"
  fresh3D :: "int \<Rightarrow> int \<Rightarrow> int \<Rightarrow> 'r"
  toCovariant2D :: "'r Field2D Vector \<Rightarrow> 'r Field2D Vector"
  toContravariant2D :: "'r Field2D Vector \<Rightarrow> 'r Field2D Vector"
  toCovariant3D :: "'r Field3D Vector \<Rightarrow> 'r Field3D Vector"
  toContravariant3D :: "'r Field3D Vector \<Rightarrow> 'r Field3D Vector"
  interp_to :: "'r Field3D \<Rightarrow> CELL_LOC \<Rightarrow> 'r Field3D"
  div_3_2 :: "'r Field3D \<Rightarrow> 'r Field2D \<Rightarrow> 'r Field3D"
  div_3_r :: "'r Field3D \<Rightarrow> 'r \<Rightarrow> 'r Field3D"
  div_2_2 :: "'r Field2D \<Rightarrow> 'r Field2D \<Rightarrow> 'r Field2D"
  mul_2_3 :: "'r Field2D \<Rightarrow> 'r Field3D \<Rightarrow> 'r Field3D"
  mul_3_2 :: "'r Field3D \<Rightarrow> 'r Field2D \<Rightarrow> 'r Field3D"
  mul_2_2 :: "'r Field2D \<Rightarrow> 'r Field2D \<Rightarrow> 'r Field2D"
  add_3_3 :: "'r Field3D \<Rightarrow> 'r Field3D \<Rightarrow> 'r Field3D"
  add_2_2 :: "'r Field2D \<Rightarrow> 'r Field2D \<Rightarrow> 'r Field2D"
  sub_3_3 :: "'r Field3D \<Rightarrow> 'r Field3D \<Rightarrow> 'r Field3D"
  SQ_2d :: "'r Field2D \<Rightarrow> 'r Field2D"
  SQ_r :: "'r \<Rightarrow> 'r"

text \<open>\<open>allocate()\<close>: storage is obtained only when there is none.\<close>

definition allocate2 :: "'r Field_lib \<Rightarrow> 'r Field2D \<Rightarrow> 'r Field2D" where
  "allocate2 L f = (case data2d f of None \<Rightarrow> f\<lparr>data2d := Some (fresh2D L)\<rparr> | Some d \<Rightarrow> f)"

definition allocate3 :: "'r Field_lib \<Rightarrow> 'r Field3D \<Rightarrow> 'r Field3D" where
  "allocate3 L f = (case data3d f of None \<Rightarrow> f\<lparr>data3d := Some (fresh3D L)\<rparr> | Some d \<Rightarrow> f)"

text \<open>\<open>for(i=0;i<f2d.size();i++) if(f2d[i].var->getData() == NULL) return(1);\<close>\<close>

fun null_data_2d :: "'r Store \<Rightarrow> addr VarStr list \<Rightarrow> bool" where
  "null_data_2d h [] = False"
| "null_data_2d h (x # xs) = (if data2d (fields2 h (var x)) = None then True else null_data_2d h xs)"

fun null_data_3d :: "'r Store \<Rightarrow> addr VarStr list \<Rightarrow> bool" where
  "null_data_3d h [] = False"
| "null_data_3d h (x # xs) = (if data3d (fields3 h (var x)) = None then True else null_data_3d h xs)"

text \<open>
  A basis conversion is a method of the vector object a pointer leads to: it works on the
  three component fields of that object and on its flag, in place. The conversion itself is
  a parameter on vectors taken by value; here it is applied to what the store holds at the
  object and the result is put back.
\<close>

definition read_vector2 :: "'r Store \<Rightarrow> addr \<Rightarrow> 'r Field2D Vector" where
  "read_vector2 h a =
     \<lparr>comp_x = fields2 h (comp_x (vectors2 h a)), comp_y = fields2 h (comp_y (vectors2 h a)),
      comp_z = fields2 h (comp_z (vectors2 h a)), covariant = covariant (vectors2 h a)\<rparr>"

definition write_vector2 :: "'r Store \<Rightarrow> addr \<Rightarrow> 'r Field2D Vector \<Rightarrow> 'r Store" where
  "write_vector2 h a w =
     h\<lparr>fields2 := (fields2 h)(comp_x (vectors2 h a) := comp_x w, comp_y (vectors2 h a) := comp_y w,
                              comp_z (vectors2 h a) := comp_z w),
       vectors2 := (vectors2 h)(a := (vectors2 h a)\<lparr>covariant := covariant w\<rparr>)\<rparr>"

definition read_vector3 :: "'r Store \<Rightarrow> addr \<Rightarrow> 'r Field3D Vector" where
  "read_vector3 h a =
     \<lparr>comp_x = fields3 h (comp_x (vectors3 h a)), comp_y = fields3 h (comp_y (vectors3 h a)),
      comp_z = fields3 h (comp_z (vectors3 h a)), covariant = covariant (vectors3 h a)\<rparr>"

definition write_vector3 :: "'r Store \<Rightarrow> addr \<Rightarrow> 'r Field3D Vector \<Rightarrow> 'r Store" where
  "write_vector3 h a w =
     h\<lparr>fields3 := (fields3 h)(comp_x (vectors3 h a) := comp_x w, comp_y (vectors3 h a) := comp_y w,
                              comp_z (vectors3 h a) := comp_z w),
       vectors3 := (vectors3 h)(a := (vectors3 h a)\<lparr>covariant := covariant w\<rparr>)\<rparr>"

text \<open>
  \<open>if(v2d[i].covariant) v->toCovariant(); else v->toContravariant();\<close> for the vector object
  \<open>v\<close> at the address \<open>a\<close>.
\<close>

definition to_basis2 :: "'r Field_lib \<Rightarrow> bool \<Rightarrow> addr \<Rightarrow> 'r Store \<Rightarrow> 'r Store" where
  "to_basis2 L cov a h =
     write_vector2 h a ((if cov then toCovariant2D L else toContravariant2D L) (read_vector2 h a))"

definition to_basis3 :: "'r Field_lib \<Rightarrow> bool \<Rightarrow> addr \<Rightarrow> 'r Store \<Rightarrow> 'r Store" where
  "to_basis3 L cov a h =
     write_vector3 h a ((if cov then toCovariant3D L else toContravariant3D L) (read_vector3 h a))"

text \<open>
  The two loops of \<open>save_vars\<close> under \<open>// Make sure vectors in correct basis\<close>: every
  registered 2D vector, then every registered 3D vector, in registration order.
\<close>

definition declared_basis :: "'r Field_lib \<Rightarrow> Solver_vars \<Rightarrow> 'r Store \<Rightarrow> 'r Store" where
  "declared_basis L R h =
     fold (\<lambda>x. to_basis3 L (vs_covariant x) (var x)) (v3d R)
       (fold (\<lambda>x. to_basis2 L (vs_covariant x) (var x)) (v2d R) h)"

text \<open>
  \<open>int PetscSolver::save_vars(BoutReal *udata)\<close>: the return code, the store and the buffer as
  the call leaves them.
\<close>

definition save_vars :: "'r Field_lib \<Rightarrow> Mesh \<Rightarrow> Solver_vars \<Rightarrow> 'r Store \<Rightarrow> 'r list \<Rightarrow> fault + (int \<times> 'r Store \<times> 'r list)" where
  "save_vars L mesh R h udata =
     (if null_data_2d h (f2d R) then Inr (1, h, udata)
      else if null_data_3d h (f3d R) then Inr (1, h, udata)
      else bindF (loop_vars R mesh SAVE_VARS (declared_basis L R h) udata)
             (\<lambda>r. Inr (0, fst r, snd r)))"

text \<open>
  \<open>void PetscSolver::load_vars(BoutReal *udata)\<close>: every 2D variable is allocated; every 3D
  variable is allocated and set to its declared location; the traversal copies; the flag of
  every registered vector is set to the declared basis.
\<close>

definition load_vars :: "'r Field_lib \<Rightarrow> Mesh \<Rightarrow> Solver_vars \<Rightarrow> 'r Store \<Rightarrow> 'r list \<Rightarrow> fault + 'r Store" where
  "load_vars L mesh R h udata =
     (let h1 = fold (\<lambda>x h. h\<lparr>fields2 := (fields2 h)(var x := allocate2 L (fields2 h (var x)))\<rparr>)
                 (f2d R) h;
          h2 = fold (\<lambda>x h. h\<lparr>fields3 := (fields3 h)(var x :=
                                 (allocate3 L (fields3 h (var x)))\<lparr>loc3d := location x\<rparr>)\<rparr>)
                 (f3d R) h1
      in bindF (loop_vars R mesh LOAD_VARS h2 udata)
           (\<lambda>r. let h3 = fst r;
                     h4 = fold (\<lambda>x h. h\<lparr>vectors2 := (vectors2 h)(var x :=
                                            (vectors2 h (var x))\<lparr>covariant := vs_covariant x\<rparr>)\<rparr>)
                            (v2d R) h3;
                     h5 = fold (\<lambda>x h. h\<lparr>vectors3 := (vectors3 h)(var x :=
                                            (vectors3 h (var x))\<lparr>covariant := vs_covariant x\<rparr>)\<rparr>)
                            (v3d R) h4
                 in Inr h5))"

text \<open>
  \<open>void PetscSolver::save_derivs(BoutReal *dudata)\<close>: the time derivative of every registered
  vector is brought to the declared basis, every 3D time derivative that is not at its
  declared location is interpolated onto it, and the traversal copies.
\<close>

definition save_derivs :: "'r Field_lib \<Rightarrow> Mesh \<Rightarrow> Solver_vars \<Rightarrow> 'r Store \<Rightarrow> 'r list \<Rightarrow> fault + ('r Store \<times> 'r list)" where
  "save_derivs L mesh R h dudata =
     (let h1 = fold (\<lambda>x. to_basis2 L (vs_covariant x) (F_var x)) (v2d R) h;
          h2 = fold (\<lambda>x. to_basis3 L (vs_covariant x) (F_var x)) (v3d R) h1;
          h3 = fold (\<lambda>x h. if location x \<noteq> loc3d (fields3 h (F_var x))
                            then h\<lparr>fields3 := (fields3 h)(F_var x :=
                                     interp_to L (fields3 h (F_var x)) (location x))\<rparr>
                            else h) (f3d R) h2
      in loop_vars R mesh SAVE_DERIVS h3 dudata)"

section \<open>The time integration driver (\<open>PetscSolver\<close>)\<close>

text \<open>
  The members of the solver that \<open>rhs\<close> and \<open>PreStep\<close> touch, with the store its pointers lead
  into. Times are \<open>BoutReal\<close>, here real numbers: the rounding of \<open>double\<close> is not modelled,
  and the evaluations below use times that \<open>double\<close> represents and adds exactly.
\<close>

record 'r PetscSolver =
  vars :: Solver_vars
  store :: "'r Store"
  simtime :: real
  next_time :: real
  tstep :: real
  nout :: int
  iteration :: int
  rhs_ncalls :: int
  rhs_wtime :: real
  outputnext :: bool

text \<open>
  \<open>PetscErrorCode PetscSolver::rhs(TS ts, BoutReal t, Vec udata, Vec dudata)\<close>. \<open>run_rhs(t)\<close> is
  a member function of the solver whose body is not among the files: it is a parameter that
  may change any member and the store. The code drops the flag it returns.
\<close>

definition rhs :: "'r Field_lib \<Rightarrow> Mesh \<Rightarrow> (real \<Rightarrow> 'r PetscSolver \<Rightarrow> int \<times> 'r PetscSolver) \<Rightarrow> real \<Rightarrow> 'r list \<Rightarrow> 'r list \<Rightarrow> 'r PetscSolver \<Rightarrow> fault + (int \<times> 'r PetscSolver \<times> 'r list)" where
  "rhs L mesh run_rhs t udata dudata s =
     bindF (load_vars L mesh (vars s) (store s) udata)
       (\<lambda>h1. let flag = fst (run_rhs t (s\<lparr>store := h1\<rparr>));
                  sa = snd (run_rhs t (s\<lparr>store := h1\<rparr>)) in
          bindF (save_derivs L mesh (vars sa) (store sa) dudata)
            (\<lambda>r. let s1 = sa\<lparr>store := fst r, simtime := t\<rparr>;
                      s2 = (if t \<ge> next_time s1
                            then s1\<lparr>iteration := iteration s1 + 1,
                                    rhs_ncalls := 0,
                                    rhs_wtime := 0,
                                    outputnext := False,
                                    next_time := simtime s1 + tstep s1\<rparr>
                            else s1)
                  in Inr (0, s2, snd r)))"

text \<open>What \<open>TSGetTime\<close> and \<open>TSGetTimeStep\<close> read of the integrator.\<close>

record TS =
  ts_time :: real
  ts_time_step :: real

text \<open>
  \<open>PetscErrorCode PreStep(TS ts)\<close>: \<open>t\<close> and \<open>dt\<close> are local copies; the code assigns to \<open>dt\<close> and
  never hands it back to the integrator.
\<close>

definition PreStep :: "TS \<Rightarrow> 'r PetscSolver \<Rightarrow> int \<times> TS \<times> 'r PetscSolver" where
  "PreStep ts s =
     (let t = ts_time ts; dt = ts_time_step ts in
      if t + dt \<ge> next_time s
      then (let dt = next_time s - t in (0, ts, s\<lparr>outputnext := True\<rparr>))
      else (0, ts, s\<lparr>outputnext := False\<rparr>))"

section \<open>The differential operator library (\<open>derivs.cxx\<close>)\<close>

text \<open>A reference to the base class \<open>Field\<close> is a 2D or a 3D field.\<close>

datatype 'r Field = F2 "'r Field2D" | F3 "'r Field3D"

text \<open>
  \<open>mesh->coordinates()\<close>: spacings, the non-uniform correction factors \<open>d1_dx\<close> and \<open>d1_dy\<close>,
  the Christoffel symbols that \<open>DDZ\<close> of a vector reads and the shift torsion.
\<close>

record 'r Coordinates =
  dx :: "'r Field2D"
  dy :: "'r Field2D"
  dz :: 'r
  d1_dx :: "'r Field2D"
  d1_dy :: "'r Field2D"
  non_uniform :: bool
  IntShiftTorsion :: "'r Field2D"
  G1_13 :: "'r Field2D"
  G1_23 :: "'r Field2D"
  G1_33 :: "'r Field2D"
  G2_13 :: "'r Field2D"
  G2_23 :: "'r Field2D"
  G2_33 :: "'r Field2D"
  G3_13 :: "'r Field2D"
  G3_23 :: "'r Field2D"
  G3_33 :: "'r Field2D"

text \<open>
  The index-space primitives of the mesh, which are parameters. The overloads on \<open>Field2D\<close>
  carry the suffix \<open>_2d\<close>; the primitives of the advection operators take references to
  \<open>Field\<close>.
\<close>

record 'r Index_derivs =
  indexDDX :: "'r Field3D \<Rightarrow> CELL_LOC \<Rightarrow> DIFF_METHOD \<Rightarrow> 'r Field3D"
  indexDDY :: "'r Field3D \<Rightarrow> CELL_LOC \<Rightarrow> DIFF_METHOD \<Rightarrow> 'r Field3D"
  indexDDZ :: "'r Field3D \<Rightarrow> CELL_LOC \<Rightarrow> DIFF_METHOD \<Rightarrow> bool \<Rightarrow> 'r Field3D"
  indexD2DX2 :: "'r Field3D \<Rightarrow> CELL_LOC \<Rightarrow> DIFF_METHOD \<Rightarrow> 'r Field3D"
  indexD2DY2 :: "'r Field3D \<Rightarrow> CELL_LOC \<Rightarrow> DIFF_METHOD \<Rightarrow> 'r Field3D"
  indexD2DZ2 :: "'r Field3D \<Rightarrow> CELL_LOC \<Rightarrow> DIFF_METHOD \<Rightarrow> bool \<Rightarrow> 'r Field3D"
  indexDDX_2d :: "'r Field2D \<Rightarrow> 'r Field2D"
  indexDDY_2d :: "'r Field2D \<Rightarrow> 'r Field2D"
  indexD2DX2_2d :: "'r Field2D \<Rightarrow> 'r Field2D"
  indexD2DY2_2d :: "'r Field2D \<Rightarrow> 'r Field2D"

record 'r Index_fluxes =
  indexVDDX :: "'r Field \<Rightarrow> 'r Field \<Rightarrow> CELL_LOC \<Rightarrow> DIFF_METHOD \<Rightarrow> 'r Field3D"
  indexVDDY :: "'r Field \<Rightarrow> 'r Field \<Rightarrow> CELL_LOC \<Rightarrow> DIFF_METHOD \<Rightarrow> 'r Field3D"
  indexVDDZ :: "'r Field \<Rightarrow> 'r Field \<Rightarrow> CELL_LOC \<Rightarrow> DIFF_METHOD \<Rightarrow> 'r Field3D"
  indexFDDX :: "'r Field3D \<Rightarrow> 'r Field3D \<Rightarrow> CELL_LOC \<Rightarrow> DIFF_METHOD \<Rightarrow> 'r Field3D"
  indexFDDY :: "'r Field3D \<Rightarrow> 'r Field3D \<Rightarrow> CELL_LOC \<Rightarrow> DIFF_METHOD \<Rightarrow> 'r Field3D"
  indexFDDZ :: "'r Field3D \<Rightarrow> 'r Field3D \<Rightarrow> CELL_LOC \<Rightarrow> DIFF_METHOD \<Rightarrow> 'r Field3D"
  indexFDDX_2d :: "'r Field2D \<Rightarrow> 'r Field2D \<Rightarrow> CELL_LOC \<Rightarrow> DIFF_METHOD \<Rightarrow> 'r Field2D"
  indexFDDY_2d :: "'r Field2D \<Rightarrow> 'r Field2D \<Rightarrow> CELL_LOC \<Rightarrow> DIFF_METHOD \<Rightarrow> 'r Field2D"
  indexVDDX_2d :: "'r Field2D \<Rightarrow> 'r Field2D \<Rightarrow> CELL_LOC \<Rightarrow> DIFF_METHOD \<Rightarrow> 'r Field2D"
  indexVDDY_2d :: "'r Field2D \<Rightarrow> 'r Field2D \<Rightarrow> CELL_LOC \<Rightarrow> DIFF_METHOD \<Rightarrow> 'r Field2D"

text \<open>The global \<open>mesh\<close> as the operator library uses it.\<close>

record 'r Mesh_interface =
  coordinates :: "'r Coordinates"
  IncIntShear :: bool
  index :: "'r Index_derivs"
  flux :: "'r Index_fluxes"

text \<open>
  Modelled from the spec: the constructor \<open>Field2D(BoutReal)\<close> is not among the files.
  \<open>Field2D(c)\<close> is a field holding \<open>c\<close> at every point (the specification's zero-valued result
  for \<open>c = 0\<close>), at the location a construction gives, which is a parameter.
\<close>

definition Field2D_const :: "'r Field_lib \<Rightarrow> 'r \<Rightarrow> 'r Field2D" where
  "Field2D_const L c = \<lparr>loc2d = default_location L, data2d = Some (\<lambda>jx jy. c)\<rparr>"

text \<open>
  Modelled from the spec: the default constructor \<open>Field2D()\<close> is not among the files. The
  field has no storage yet.
\<close>

definition Field2D_empty :: "'r Field_lib \<Rightarrow> 'r Field2D" where
  "Field2D_empty L = \<lparr>loc2d = default_location L, data2d = None\<rparr>"

text \<open>
  Modelled from the spec: the assignment of a \<open>BoutReal\<close> to a \<open>Field2D\<close> is not among the
  files. \<open>f = c\<close> fills \<open>f\<close> with \<open>c\<close> at every point and leaves its location.
\<close>

definition assign_real :: "'r Field2D \<Rightarrow> 'r \<Rightarrow> 'r Field2D" where
  "assign_real f c = f\<lparr>data2d := Some (\<lambda>jx jy. c)\<rparr>"

subsection \<open>First derivatives\<close>

text \<open>\<open>DDZ(const Field3D &f, CELL_LOC outloc, DIFF_METHOD method, bool inc_xbndry)\<close>\<close>

definition DDZ_3D :: "'r Field_lib \<Rightarrow> 'r Mesh_interface \<Rightarrow> 'r Field3D \<Rightarrow> CELL_LOC \<Rightarrow> DIFF_METHOD \<Rightarrow> bool \<Rightarrow> 'r Field3D" where
  "DDZ_3D L M f outloc method inc_xbndry =
     div_3_r L (indexDDZ (index M) f outloc method inc_xbndry) (dz (coordinates M))"

text \<open>\<open>DDZ(const Field3D &f, DIFF_METHOD method, CELL_LOC outloc, bool inc_xbndry)\<close>\<close>

definition DDZ_3D_ml :: "'r Field_lib \<Rightarrow> 'r Mesh_interface \<Rightarrow> 'r Field3D \<Rightarrow> DIFF_METHOD \<Rightarrow> CELL_LOC \<Rightarrow> bool \<Rightarrow> 'r Field3D" where
  "DDZ_3D_ml L M f method outloc inc_xbndry = DDZ_3D L M f outloc method inc_xbndry"

text \<open>
  \<open>DDX(const Field3D &f, CELL_LOC outloc, DIFF_METHOD method)\<close>; the call \<open>DDZ(f, outloc)\<close>
  takes the defaults \<open>DIFF_DEFAULT\<close> and \<open>false\<close> of the declaration.
\<close>

definition DDX_3D :: "'r Field_lib \<Rightarrow> 'r Mesh_interface \<Rightarrow> 'r Field3D \<Rightarrow> CELL_LOC \<Rightarrow> DIFF_METHOD \<Rightarrow> 'r Field3D" where
  "DDX_3D L M f outloc method =
     (let result = div_3_2 L (indexDDX (index M) f outloc method) (dx (coordinates M)) in
      if IncIntShear M
      then add_3_3 L result
             (mul_2_3 L (IntShiftTorsion (coordinates M)) (DDZ_3D L M f outloc DIFF_DEFAULT False))
      else result)"

definition DDX_3D_ml :: "'r Field_lib \<Rightarrow> 'r Mesh_interface \<Rightarrow> 'r Field3D \<Rightarrow> DIFF_METHOD \<Rightarrow> CELL_LOC \<Rightarrow> 'r Field3D" where
  "DDX_3D_ml L M f method outloc = DDX_3D L M f outloc method"

definition DDY_3D :: "'r Field_lib \<Rightarrow> 'r Mesh_interface \<Rightarrow> 'r Field3D \<Rightarrow> CELL_LOC \<Rightarrow> DIFF_METHOD \<Rightarrow> 'r Field3D" where
  "DDY_3D L M f outloc method =
     div_3_2 L (indexDDY (index M) f outloc method) (dy (coordinates M))"

definition DDY_3D_ml :: "'r Field_lib \<Rightarrow> 'r Mesh_interface \<Rightarrow> 'r Field3D \<Rightarrow> DIFF_METHOD \<Rightarrow> CELL_LOC \<Rightarrow> 'r Field3D" where
  "DDY_3D_ml L M f method outloc = DDY_3D L M f outloc method"

text \<open>\<open>const Field2D DDZ(const Field2D &UNUSED(f)) { return Field2D(0.0); }\<close>\<close>

definition DDZ_Field2D :: "('r::zero) Field_lib \<Rightarrow> 'r Field2D \<Rightarrow> 'r Field2D" where
  "DDZ_Field2D L f = Field2D_const L 0"

text \<open>
  \<open>DDZ(const Vector3D &v, CELL_LOC outloc, DIFF_METHOD method)\<close>; each \<open>DDZ(v.x, outloc, method)\<close>
  is the operator on \<open>Field3D\<close> with the default \<open>false\<close> for \<open>inc_xbndry\<close>.
\<close>

definition DDZ_Vector3D :: "'r Field_lib \<Rightarrow> 'r Mesh_interface \<Rightarrow> 'r Field3D Vector \<Rightarrow> CELL_LOC \<Rightarrow> DIFF_METHOD \<Rightarrow> 'r Field3D Vector" where
  "DDZ_Vector3D L M v outloc method =
     (let metric = coordinates M in
      if covariant v
      then \<lparr>comp_x = sub_3_3 L (sub_3_3 L (sub_3_3 L (DDZ_3D L M (comp_x v) outloc method False)
                        (mul_3_2 L (comp_x v) (G1_13 metric)))
                        (mul_3_2 L (comp_y v) (G2_13 metric)))
                        (mul_3_2 L (comp_z v) (G3_13 metric)),
            comp_y = sub_3_3 L (sub_3_3 L (sub_3_3 L (DDZ_3D L M (comp_y v) outloc method False)
                        (mul_3_2 L (comp_x v) (G1_23 metric)))
                        (mul_3_2 L (comp_y v) (G2_23 metric)))
                        (mul_3_2 L (comp_z v) (G3_23 metric)),
            comp_z = sub_3_3 L (sub_3_3 L (sub_3_3 L (DDZ_3D L M (comp_z v) outloc method False)
                        (mul_3_2 L (comp_x v) (G1_33 metric)))
                        (mul_3_2 L (comp_y v) (G2_33 metric)))
                        (mul_3_2 L (comp_z v) (G3_33 metric)),
            covariant = True\<rparr>
      else \<lparr>comp_x = add_3_3 L (add_3_3 L (add_3_3 L (DDZ_3D L M (comp_x v) outloc method False)
                        (mul_3_2 L (comp_x v) (G1_13 metric)))
                        (mul_3_2 L (comp_y v) (G1_23 metric)))
                        (mul_3_2 L (comp_z v) (G1_33 metric)),
            comp_y = add_3_3 L (add_3_3 L (add_3_3 L (DDZ_3D L M (comp_y v) outloc method False)
                        (mul_3_2 L (comp_x v) (G2_13 metric)))
                        (mul_3_2 L (comp_y v) (G2_23 metric)))
                        (mul_3_2 L (comp_z v) (G2_33 metric)),
            comp_z = add_3_3 L (add_3_3 L (add_3_3 L (DDZ_3D L M (comp_z v) outloc method False)
                        (mul_3_2 L (comp_x v) (G3_13 metric)))
                        (mul_3_2 L (comp_y v) (G3_23 metric)))
                        (mul_3_2 L (comp_z v) (G3_33 metric)),
            covariant = False\<rparr>)"

definition DDZ_Vector3D_ml :: "'r Field_lib \<Rightarrow> 'r Mesh_interface \<Rightarrow> 'r Field3D Vector \<Rightarrow> DIFF_METHOD \<Rightarrow> CELL_LOC \<Rightarrow> 'r Field3D Vector" where
  "DDZ_Vector3D_ml L M v method outloc = DDZ_Vector3D L M v outloc method"

text \<open>
  \<open>const Vector2D DDZ(const Vector2D &v)\<close>: the result is default-constructed, its flag is
  copied from \<open>v\<close> and \<open>0.\<close> is assigned to each component.
\<close>

definition DDZ_Vector2D :: "('r::zero) Field_lib \<Rightarrow> 'r Field2D Vector \<Rightarrow> 'r Field2D Vector" where
  "DDZ_Vector2D L v =
     (let result = \<lparr>comp_x = Field2D_empty L, comp_y = Field2D_empty L, comp_z = Field2D_empty L,
                    covariant = True\<rparr>;
          result = result\<lparr>covariant := covariant v\<rparr>;
          result = result\<lparr>comp_x := assign_real (comp_x result) 0\<rparr>;
          result = result\<lparr>comp_y := assign_real (comp_y result) 0\<rparr>;
          result = result\<lparr>comp_z := assign_real (comp_z result) 0\<rparr>
      in result)"

subsection \<open>Second and fourth derivatives\<close>

text \<open>\<open>D2DX2(const Field3D &f, CELL_LOC outloc, DIFF_METHOD method)\<close>\<close>

definition D2DX2_3D :: "'r Field_lib \<Rightarrow> 'r Mesh_interface \<Rightarrow> 'r Field3D \<Rightarrow> CELL_LOC \<Rightarrow> DIFF_METHOD \<Rightarrow> 'r Field3D" where
  "D2DX2_3D L M f outloc method =
     (let result = div_3_2 L (indexD2DX2 (index M) f outloc method) (SQ_2d L (dx (coordinates M))) in
      if non_uniform (coordinates M)
      then add_3_3 L result
             (div_3_2 L (mul_2_3 L (d1_dx (coordinates M)) (indexDDX (index M) f outloc DIFF_DEFAULT))
                (dx (coordinates M)))
      else result)"

definition D2DX2_3D_ml :: "'r Field_lib \<Rightarrow> 'r Mesh_interface \<Rightarrow> 'r Field3D \<Rightarrow> DIFF_METHOD \<Rightarrow> CELL_LOC \<Rightarrow> 'r Field3D" where
  "D2DX2_3D_ml L M f method outloc = D2DX2_3D L M f outloc method"

text \<open>\<open>D2DX2(const Field2D &f)\<close>\<close>

definition D2DX2_2D :: "'r Field_lib \<Rightarrow> 'r Mesh_interface \<Rightarrow> 'r Field2D \<Rightarrow> 'r Field2D" where
  "D2DX2_2D L M f =
     (let result = div_2_2 L (indexD2DX2_2d (index M) f) (SQ_2d L (dx (coordinates M))) in
      if non_uniform (coordinates M)
      then add_2_2 L result
             (div_2_2 L (mul_2_2 L (d1_dx (coordinates M)) (indexDDX_2d (index M) f))
                (dx (coordinates M)))
      else result)"

text \<open>
  \<open>D2DY2(const Field3D &f, CELL_LOC outloc, DIFF_METHOD method)\<close>, which ends in
  \<open>return interp_to(result, outloc);\<close>
\<close>

definition D2DY2_3D :: "'r Field_lib \<Rightarrow> 'r Mesh_interface \<Rightarrow> 'r Field3D \<Rightarrow> CELL_LOC \<Rightarrow> DIFF_METHOD \<Rightarrow> 'r Field3D" where
  "D2DY2_3D L M f outloc method =
     (let result = div_3_2 L (indexD2DY2 (index M) f outloc method) (SQ_2d L (dy (coordinates M)));
          result = (if non_uniform (coordinates M)
                    then add_3_3 L result
                           (div_3_2 L (mul_2_3 L (d1_dy (coordinates M))
                                         (indexDDY (index M) f outloc DIFF_DEFAULT))
                              (dy (coordinates M)))
                    else result)
      in interp_to L result outloc)"

definition D2DY2_3D_ml :: "'r Field_lib \<Rightarrow> 'r Mesh_interface \<Rightarrow> 'r Field3D \<Rightarrow> DIFF_METHOD \<Rightarrow> CELL_LOC \<Rightarrow> 'r Field3D" where
  "D2DY2_3D_ml L M f method outloc = D2DY2_3D L M f outloc method"

text \<open>\<open>D2DY2(const Field2D &f)\<close>\<close>

definition D2DY2_2D :: "'r Field_lib \<Rightarrow> 'r Mesh_interface \<Rightarrow> 'r Field2D \<Rightarrow> 'r Field2D" where
  "D2DY2_2D L M f =
     (let result = div_2_2 L (indexD2DY2_2d (index M) f) (SQ_2d L (dy (coordinates M))) in
      if non_uniform (coordinates M)
      then add_2_2 L result
             (div_2_2 L (mul_2_2 L (d1_dy (coordinates M)) (indexDDY_2d (index M) f))
                (dy (coordinates M)))
      else result)"

definition D2DZ2_3D :: "'r Field_lib \<Rightarrow> 'r Mesh_interface \<Rightarrow> 'r Field3D \<Rightarrow> CELL_LOC \<Rightarrow> DIFF_METHOD \<Rightarrow> bool \<Rightarrow> 'r Field3D" where
  "D2DZ2_3D L M f outloc method inc_xbndry =
     div_3_r L (indexD2DZ2 (index M) f outloc method inc_xbndry) (SQ_r L (dz (coordinates M)))"

definition D2DZ2_3D_ml :: "'r Field_lib \<Rightarrow> 'r Mesh_interface \<Rightarrow> 'r Field3D \<Rightarrow> DIFF_METHOD \<Rightarrow> CELL_LOC \<Rightarrow> bool \<Rightarrow> 'r Field3D" where
  "D2DZ2_3D_ml L M f method outloc inc_xbndry = D2DZ2_3D L M f outloc method inc_xbndry"

text \<open>\<open>const Field2D D2DZ2(const Field2D &UNUSED(f)) { return Field2D(0.0); }\<close>\<close>

definition D2DZ2_Field2D :: "('r::zero) Field_lib \<Rightarrow> 'r Field2D \<Rightarrow> 'r Field2D" where
  "D2DZ2_Field2D L f = Field2D_const L 0"

text \<open>
  \<open>D4DZ4(const Field2D &f)\<close>, the neighbour of the two: it reads the location of \<open>f\<close> and sets
  it on the zero field.
\<close>

definition D4DZ4_Field2D :: "('r::zero) Field_lib \<Rightarrow> 'r Field2D \<Rightarrow> 'r Field2D" where
  "D4DZ4_Field2D L f =
     (let loc = loc2d f; result = Field2D_const L 0; result = result\<lparr>loc2d := loc\<rparr> in result)"

subsection \<open>Advection and flux-conserving operators\<close>

text \<open>\<open>VDDX(const Field &v, const Field &f, CELL_LOC outloc, DIFF_METHOD method)\<close> and its mirror.\<close>

definition VDDX :: "'r Field_lib \<Rightarrow> 'r Mesh_interface \<Rightarrow> 'r Field \<Rightarrow> 'r Field \<Rightarrow> CELL_LOC \<Rightarrow> DIFF_METHOD \<Rightarrow> 'r Field3D" where
  "VDDX L M v f outloc method = div_3_2 L (indexVDDX (flux M) v f outloc method) (dx (coordinates M))"

definition VDDX_ml :: "'r Field_lib \<Rightarrow> 'r Mesh_interface \<Rightarrow> 'r Field \<Rightarrow> 'r Field \<Rightarrow> DIFF_METHOD \<Rightarrow> CELL_LOC \<Rightarrow> 'r Field3D" where
  "VDDX_ml L M v f method outloc = VDDX L M v f outloc method"

definition VDDY :: "'r Field_lib \<Rightarrow> 'r Mesh_interface \<Rightarrow> 'r Field \<Rightarrow> 'r Field \<Rightarrow> CELL_LOC \<Rightarrow> DIFF_METHOD \<Rightarrow> 'r Field3D" where
  "VDDY L M v f outloc method = div_3_2 L (indexVDDY (flux M) v f outloc method) (dy (coordinates M))"

definition VDDY_ml :: "'r Field_lib \<Rightarrow> 'r Mesh_interface \<Rightarrow> 'r Field \<Rightarrow> 'r Field \<Rightarrow> DIFF_METHOD \<Rightarrow> CELL_LOC \<Rightarrow> 'r Field3D" where
  "VDDY_ml L M v f method outloc = VDDY L M v f outloc method"

definition VDDZ :: "'r Field_lib \<Rightarrow> 'r Mesh_interface \<Rightarrow> 'r Field \<Rightarrow> 'r Field \<Rightarrow> CELL_LOC \<Rightarrow> DIFF_METHOD \<Rightarrow> 'r Field3D" where
  "VDDZ L M v f outloc method = div_3_r L (indexVDDZ (flux M) v f outloc method) (dz (coordinates M))"

definition VDDZ_ml :: "'r Field_lib \<Rightarrow> 'r Mesh_interface \<Rightarrow> 'r Field \<Rightarrow> 'r Field \<Rightarrow> DIFF_METHOD \<Rightarrow> CELL_LOC \<Rightarrow> 'r Field3D" where
  "VDDZ_ml L M v f method outloc = VDDZ L M v f outloc method"

text \<open>
  \<open>VDDX(const Field2D &v, const Field2D &f, CELL_LOC outloc, DIFF_METHOD method)\<close> and the same
  for \<open>VDDY\<close>, the special case where both arguments are 2D. These two overloads have no
  mirror taking the method first: a call on two 2D fields with the method before the location
  can only bind to \<open>VDDX(const Field &, const Field &, DIFF_METHOD, CELL_LOC)\<close>, that is to
  \<open>VDDX_ml\<close> on the two fields as references to \<open>Field\<close>.
\<close>

definition VDDX_2D :: "'r Field_lib \<Rightarrow> 'r Mesh_interface \<Rightarrow> 'r Field2D \<Rightarrow> 'r Field2D \<Rightarrow> CELL_LOC \<Rightarrow> DIFF_METHOD \<Rightarrow> 'r Field2D" where
  "VDDX_2D L M v f outloc method = div_2_2 L (indexVDDX_2d (flux M) v f outloc method) (dx (coordinates M))"

definition VDDY_2D :: "'r Field_lib \<Rightarrow> 'r Mesh_interface \<Rightarrow> 'r Field2D \<Rightarrow> 'r Field2D \<Rightarrow> CELL_LOC \<Rightarrow> DIFF_METHOD \<Rightarrow> 'r Field2D" where
  "VDDY_2D L M v f outloc method = div_2_2 L (indexVDDY_2d (flux M) v f outloc method) (dy (coordinates M))"

text \<open>\<open>FDDX\<close> and \<open>FDDY\<close> on \<open>Field2D\<close> and on \<open>Field3D\<close>, each with its mirror.\<close>

definition FDDX_2D :: "'r Field_lib \<Rightarrow> 'r Mesh_interface \<Rightarrow> 'r Field2D \<Rightarrow> 'r Field2D \<Rightarrow> CELL_LOC \<Rightarrow> DIFF_METHOD \<Rightarrow> 'r Field2D" where
  "FDDX_2D L M v f outloc method = div_2_2 L (indexFDDX_2d (flux M) v f outloc method) (dx (coordinates M))"

definition FDDX_2D_ml :: "'r Field_lib \<Rightarrow> 'r Mesh_interface \<Rightarrow> 'r Field2D \<Rightarrow> 'r Field2D \<Rightarrow> DIFF_METHOD \<Rightarrow> CELL_LOC \<Rightarrow> 'r Field2D" where
  "FDDX_2D_ml L M v f method outloc = FDDX_2D L M v f outloc method"

definition FDDX_3D :: "'r Field_lib \<Rightarrow> 'r Mesh_interface \<Rightarrow> 'r Field3D \<Rightarrow> 'r Field3D \<Rightarrow> CELL_LOC \<Rightarrow> DIFF_METHOD \<Rightarrow> 'r Field3D" where
  "FDDX_3D L M v f outloc method = div_3_2 L (indexFDDX (flux M) v f outloc method) (dx (coordinates M))"

definition FDDX_3D_ml :: "'r Field_lib \<Rightarrow> 'r Mesh_interface \<Rightarrow> 'r Field3D \<Rightarrow> 'r Field3D \<Rightarrow> DIFF_METHOD \<Rightarrow> CELL_LOC \<Rightarrow> 'r Field3D" where
  "FDDX_3D_ml L M v f method outloc = FDDX_3D L M v f outloc method"

definition FDDY_2D :: "'r Field_lib \<Rightarrow> 'r Mesh_interface \<Rightarrow> 'r Field2D \<Rightarrow> 'r Field2D \<Rightarrow> CELL_LOC \<Rightarrow> DIFF_METHOD \<Rightarrow> 'r Field2D" where
  "FDDY_2D L M v f outloc method = div_2_2 L (indexFDDY_2d (flux M) v f outloc method) (dy (coordinates M))"

definition FDDY_2D_ml :: "'r Field_lib \<Rightarrow> 'r Mesh_interface \<Rightarrow> 'r Field2D \<Rightarrow> 'r Field2D \<Rightarrow> DIFF_METHOD \<Rightarrow> CELL_LOC \<Rightarrow> 'r Field2D" where
  "FDDY_2D_ml L M v f method outloc = FDDY_2D L M v f outloc method"

definition FDDY_3D :: "'r Field_lib \<Rightarrow> 'r Mesh_interface \<Rightarrow> 'r Field3D \<Rightarrow> 'r Field3D \<Rightarrow> CELL_LOC \<Rightarrow> DIFF_METHOD \<Rightarrow> 'r Field3D" where
  "FDDY_3D L M v f outloc method = div_3_2 L (indexFDDY (flux M) v f outloc method) (dy (coordinates M))"

definition FDDY_3D_ml :: "'r Field_lib \<Rightarrow> 'r Mesh_interface \<Rightarrow> 'r Field3D \<Rightarrow> 'r Field3D \<Rightarrow> DIFF_METHOD \<Rightarrow> CELL_LOC \<Rightarrow> 'r Field3D" where
  "FDDY_3D_ml L M v f method outloc = FDDY_3D L M v f outloc method"

text \<open>
  \<open>FDDZ\<close> on \<open>Field2D\<close>: here the overload taking the method first is the one with a body of
  its own, \<open>return Field2D(0.0);\<close>, and the overload taking the location first calls it.
\<close>

definition FDDZ_2D_ml :: "('r::zero) Field_lib \<Rightarrow> 'r Mesh_interface \<Rightarrow> 'r Field2D \<Rightarrow> 'r Field2D \<Rightarrow> DIFF_METHOD \<Rightarrow> CELL_LOC \<Rightarrow> 'r Field2D" where
  "FDDZ_2D_ml L M v f method outloc = Field2D_const L 0"

definition FDDZ_2D :: "('r::zero) Field_lib \<Rightarrow> 'r Mesh_interface \<Rightarrow> 'r Field2D \<Rightarrow> 'r Field2D \<Rightarrow> CELL_LOC \<Rightarrow> DIFF_METHOD \<Rightarrow> 'r Field2D" where
  "FDDZ_2D L M v f outloc method = FDDZ_2D_ml L M v f method outloc"

definition FDDZ_3D :: "'r Field_lib \<Rightarrow> 'r Mesh_interface \<Rightarrow> 'r Field3D \<Rightarrow> 'r Field3D \<Rightarrow> CELL_LOC \<Rightarrow> DIFF_METHOD \<Rightarrow> 'r Field3D" where
  "FDDZ_3D L M v f outloc method = div_3_r L (indexFDDZ (flux M) v f outloc method) (dz (coordinates M))"

definition FDDZ_3D_ml :: "'r Field_lib \<Rightarrow> 'r Mesh_interface \<Rightarrow> 'r Field3D \<Rightarrow> 'r Field3D \<Rightarrow> DIFF_METHOD \<Rightarrow> CELL_LOC \<Rightarrow> 'r Field3D" where
  "FDDZ_3D_ml L M v f method outloc = FDDZ_3D L M v f outloc method"

section \<open>Notions used in the statements\<close>

text \<open>Some registered 2D or 3D variable has no backing storage.\<close>

definition unallocated :: "Solver_vars \<Rightarrow> 'r Store \<Rightarrow> bool" where
  "unallocated R h =
     ((\<exists>x \<in> set (f2d R). data2d (fields2 h (var x)) = None) \<or>
      (\<exists>x \<in> set (f3d R). data3d (fields3 h (var x)) = None))"

text \<open>The variable of a layout entry can be read.\<close>

definition readable :: "Solver_vars \<Rightarrow> 'r Store \<Rightarrow> int \<times> int \<times> slot \<Rightarrow> bool" where
  "readable R h e = (\<exists>a. slot_value False R h e = Inr a)"

text \<open>The variable index of a layout entry is one of the registry.\<close>

definition in_range :: "Solver_vars \<Rightarrow> int \<times> int \<times> slot \<Rightarrow> bool" where
  "in_range R e =
     (case snd (snd e) of Slot2D i \<Rightarrow> i < length (f2d R) | Slot3D jz i \<Rightarrow> i < length (f3d R))"

text \<open>
  The storage cell a layout entry leads to: the kind of field, its address and the grid
  indices. Two entries of a layout have the same cell when the registry holds the same
  pointer twice, or when a boundary iterator gives the same index twice.
\<close>

fun cell :: "Solver_vars \<Rightarrow> int \<times> int \<times> slot \<Rightarrow> bool \<times> addr \<times> int \<times> int \<times> int" where
  "cell R (jx, jy, Slot2D i) = (False, var (f2d R ! i), jx, jy, 0)"
| "cell R (jx, jy, Slot3D jz i) = (True, var (f3d R ! i), jx, jy, jz)"

text \<open>
  The components of a vector by axis, and the Christoffel symbols with second lower index
  \<open>z\<close>: \<open>Gamma3 C i j\<close> has upper index \<open>i\<close> and first lower index \<open>j\<close>, so \<open>Gamma3 C AX AY\<close> is
  \<open>G1_23\<close>.
\<close>

datatype axis = AX | AY | AZ

fun component :: "axis \<Rightarrow> 'f Vector \<Rightarrow> 'f" where
  "component AX v = comp_x v"
| "component AY v = comp_y v"
| "component AZ v = comp_z v"

fun Gamma3 :: "'r Coordinates \<Rightarrow> axis \<Rightarrow> axis \<Rightarrow> 'r Field2D" where
  "Gamma3 C AX AX = G1_13 C"
| "Gamma3 C AX AY = G1_23 C"
| "Gamma3 C AX AZ = G1_33 C"
| "Gamma3 C AY AX = G2_13 C"
| "Gamma3 C AY AY = G2_23 C"
| "Gamma3 C AY AZ = G2_33 C"
| "Gamma3 C AZ AX = G3_13 C"
| "Gamma3 C AZ AY = G3_23 C"
| "Gamma3 C AZ AZ = G3_33 C"

text \<open>The value a 3D field holds at one point, if it has storage.\<close>

definition value_at :: "'r Field3D \<Rightarrow> int \<Rightarrow> int \<Rightarrow> int \<Rightarrow> 'r option" where
  "value_at f jx jy jz = (case data3d f of None \<Rightarrow> None | Some d \<Rightarrow> Some (d jx jy jz))"

section \<open>A worked instance\<close>

text \<open>
  One instance of the parameters, for the concrete evaluations below: field arithmetic is
  pointwise on allocated storage and keeps the location of the left operand, a basis
  conversion sets the flag and leaves the components, newly allocated storage holds zeros, and \<open>interp_to\<close> averages
  neighbours along Y when the requested location differs from the one of the field.
\<close>

definition pw_3_2 :: "(real \<Rightarrow> real \<Rightarrow> real) \<Rightarrow> real Field3D \<Rightarrow> real Field2D \<Rightarrow> real Field3D" where
  "pw_3_2 h a b =
     \<lparr>loc3d = loc3d a,
      data3d = (case data3d a of None \<Rightarrow> None
                | Some p \<Rightarrow> (case data2d b of None \<Rightarrow> None
                             | Some q \<Rightarrow> Some (\<lambda>jx jy jz. h (p jx jy jz) (q jx jy))))\<rparr>"

definition pw_3_3 :: "(real \<Rightarrow> real \<Rightarrow> real) \<Rightarrow> real Field3D \<Rightarrow> real Field3D \<Rightarrow> real Field3D" where
  "pw_3_3 h a b =
     \<lparr>loc3d = loc3d a,
      data3d = (case data3d a of None \<Rightarrow> None
                | Some p \<Rightarrow> (case data3d b of None \<Rightarrow> None
                             | Some q \<Rightarrow> Some (\<lambda>jx jy jz. h (p jx jy jz) (q jx jy jz))))\<rparr>"

definition pw_2_2 :: "(real \<Rightarrow> real \<Rightarrow> real) \<Rightarrow> real Field2D \<Rightarrow> real Field2D \<Rightarrow> real Field2D" where
  "pw_2_2 h a b =
     \<lparr>loc2d = loc2d a,
      data2d = (case data2d a of None \<Rightarrow> None
                | Some p \<Rightarrow> (case data2d b of None \<Rightarrow> None
                             | Some q \<Rightarrow> Some (\<lambda>jx jy. h (p jx jy) (q jx jy))))\<rparr>"

definition pw_3_r :: "(real \<Rightarrow> real \<Rightarrow> real) \<Rightarrow> real Field3D \<Rightarrow> real \<Rightarrow> real Field3D" where
  "pw_3_r h a c =
     \<lparr>loc3d = loc3d a,
      data3d = (case data3d a of None \<Rightarrow> None | Some p \<Rightarrow> Some (\<lambda>jx jy jz. h (p jx jy jz) c))\<rparr>"

definition ex_interp_to :: "real Field3D \<Rightarrow> CELL_LOC \<Rightarrow> real Field3D" where
  "ex_interp_to f loc =
     (if loc = CELL_DEFAULT \<or> loc3d f = loc then f
      else \<lparr>loc3d = loc,
            data3d = (case data3d f of None \<Rightarrow> None
                      | Some p \<Rightarrow> Some (\<lambda>jx jy jz. (p jx jy jz + p jx (jy - 1) jz) / 2))\<rparr>)"

definition ex_lib :: "real Field_lib" where
  "ex_lib =
     \<lparr>default_location = CELL_CENTRE,
      fresh2D = (\<lambda>jx jy. 0),
      fresh3D = (\<lambda>jx jy jz. 0),
      toCovariant2D = (\<lambda>v. v\<lparr>covariant := True\<rparr>),
      toContravariant2D = (\<lambda>v. v\<lparr>covariant := False\<rparr>),
      toCovariant3D = (\<lambda>v. v\<lparr>covariant := True\<rparr>),
      toContravariant3D = (\<lambda>v. v\<lparr>covariant := False\<rparr>),
      interp_to = ex_interp_to,
      div_3_2 = pw_3_2 (\<lambda>a b. a / b),
      div_3_r = pw_3_r (\<lambda>a b. a / b),
      div_2_2 = pw_2_2 (\<lambda>a b. a / b),
      mul_2_3 = (\<lambda>a b. pw_3_2 (\<lambda>x y. y * x) b a),
      mul_3_2 = pw_3_2 (\<lambda>a b. a * b),
      mul_2_2 = pw_2_2 (\<lambda>a b. a * b),
      add_3_3 = pw_3_3 (\<lambda>a b. a + b),
      add_2_2 = pw_2_2 (\<lambda>a b. a + b),
      sub_3_3 = pw_3_3 (\<lambda>a b. a - b),
      SQ_2d = (\<lambda>a. pw_2_2 (\<lambda>x y. x * y) a a),
      SQ_r = (\<lambda>c. c * c)\<rparr>"

text \<open>
  A mesh of one interior point with one guard cell on every side, three cells along Z (two
  toroidal planes), on a process that owns both X boundaries.
\<close>

definition ex_mesh :: Mesh where
  "ex_mesh =
     \<lparr>xstart = 1, xend = 1, ystart = 1, yend = 1, ngx = 3, ngy = 3, ngz = 3,
      firstX = True, lastX = True, iterateBndryLowerY = [1], iterateBndryUpperY = [1]\<rparr>"

text \<open>Fields with distinct values at every point.\<close>

definition ex_f2 :: "CELL_LOC \<Rightarrow> real Field2D" where
  "ex_f2 loc = \<lparr>loc2d = loc, data2d = Some (\<lambda>jx jy. real_of_int (10 * jx + jy))\<rparr>"

definition ex_f3 :: "CELL_LOC \<Rightarrow> real Field3D" where
  "ex_f3 loc = \<lparr>loc3d = loc, data3d = Some (\<lambda>jx jy jz. real_of_int (100 * jx + 10 * jy + jz))\<rparr>"

text \<open>
  A registry of one 2D variable and one 3D vector, which is declared covariant and whose
  three components are registered as 3D variables: the 3D fields \<open>0, 1, 2\<close> are the
  components of the vector object \<open>0\<close> and the variables of \<open>f3d\<close>, the 3D fields \<open>3, 4, 5\<close> the
  components of the vector object \<open>1\<close>, its time derivative.
\<close>

definition ex_registry :: Solver_vars where
  "ex_registry =
     \<lparr>f2d = [\<lparr>var = 0, F_var = 1, location = CELL_CENTRE, vs_covariant = False\<rparr>],
      f3d = [\<lparr>var = 0, F_var = 3, location = CELL_CENTRE, vs_covariant = False\<rparr>,
             \<lparr>var = 1, F_var = 4, location = CELL_CENTRE, vs_covariant = False\<rparr>,
             \<lparr>var = 2, F_var = 5, location = CELL_CENTRE, vs_covariant = False\<rparr>],
      v2d = [],
      v3d = [\<lparr>var = 0, F_var = 1, location = CELL_CENTRE, vs_covariant = True\<rparr>]\<rparr>"

text \<open>
  A store in which every field has storage, the first component of the vector is at
  \<open>CELL_YLOW\<close>, and the vector is populated in contravariant form.
\<close>

definition ex_store :: "real Store" where
  "ex_store =
     \<lparr>fields2 = (\<lambda>a. ex_f2 CELL_CENTRE),
      fields3 = (\<lambda>a. ex_f3 CELL_CENTRE)(0 := ex_f3 CELL_YLOW),
      vectors2 = (\<lambda>a. \<lparr>comp_x = 0, comp_y = 1, comp_z = 2, covariant = False\<rparr>),
      vectors3 = (\<lambda>a. \<lparr>comp_x = 3, comp_y = 4, comp_z = 5, covariant = False\<rparr>)
                 (0 := \<lparr>comp_x = 0, comp_y = 1, comp_z = 2, covariant = False\<rparr>)\<rparr>"

text \<open>The same store with the storage of the first 3D variable missing.\<close>

definition ex_store_unset :: "real Store" where
  "ex_store_unset =
     ex_store\<lparr>fields3 := (fields3 ex_store)(0 := \<lparr>loc3d = CELL_CENTRE, data3d = None\<rparr>)\<rparr>"

text \<open>A store in which no field has storage yet.\<close>

definition ex_store_blank :: "real Store" where
  "ex_store_blank =
     ex_store\<lparr>fields2 := (\<lambda>a. \<lparr>loc2d = CELL_CENTRE, data2d = None\<rparr>),
              fields3 := (\<lambda>a. \<lparr>loc3d = CELL_CENTRE, data3d = None\<rparr>)\<rparr>"

text \<open>
  A second instance of the basis conversions, for a metric that is twice the identity: the
  covariant components are twice the contravariant ones.
\<close>

definition scale3 :: "real \<Rightarrow> real Field3D \<Rightarrow> real Field3D" where
  "scale3 c f =
     f\<lparr>data3d := (case data3d f of None \<Rightarrow> None | Some p \<Rightarrow> Some (\<lambda>jx jy jz. c * p jx jy jz))\<rparr>"

definition scale_vector3 :: "real \<Rightarrow> bool \<Rightarrow> real Field3D Vector \<Rightarrow> real Field3D Vector" where
  "scale_vector3 c b v =
     \<lparr>comp_x = scale3 c (comp_x v), comp_y = scale3 c (comp_y v), comp_z = scale3 c (comp_z v),
      covariant = b\<rparr>"

definition ex_lib_metric :: "real Field_lib" where
  "ex_lib_metric =
     ex_lib\<lparr>toCovariant3D := (\<lambda>v. if covariant v then v else scale_vector3 2 True v),
            toContravariant3D := (\<lambda>v. if covariant v then scale_vector3 (1 / 2) False v else v)\<rparr>"

text \<open>
  A residual function: every time derivative is the variable itself. As a member function
  it also counts its calls.
\<close>

definition ex_run_rhs :: "real \<Rightarrow> real PetscSolver \<Rightarrow> int \<times> real PetscSolver" where
  "ex_run_rhs t s =
     (0, s\<lparr>store := (store s)\<lparr>fields2 := (fields2 (store s))(1 := fields2 (store s) 0),
                              fields3 := (fields3 (store s))(3 := fields3 (store s) 0,
                                           4 := fields3 (store s) 1, 5 := fields3 (store s) 2)\<rparr>,
            rhs_ncalls := rhs_ncalls s + 1\<rparr>)"

definition ex_solver :: "real PetscSolver" where
  "ex_solver =
     \<lparr>vars = ex_registry, store = ex_store, simtime = 0, next_time = 10, tstep = 10, nout = 5,
      iteration = 0, rhs_ncalls = 7, rhs_wtime = 3, outputnext = False\<rparr>"

text \<open>A flat buffer of the length of the layout of this instance, and the integrator state.\<close>

definition ex_buffer :: "real list" where
  "ex_buffer = [0, 0, 0, 0, 0, 0, 0, 0, 0, 0, 0, 0, 0, 0, 0, 0, 0, 0, 0, 0, 0, 0, 0, 0, 0, 0, 0, 0,
                0, 0, 0, 0, 0, 0, 0]"

definition ex_ts :: TS where
  "ex_ts = \<lparr>ts_time = 5, ts_time_step = 10\<rparr>"

text \<open>A 3D vector with the same components in either basis.\<close>

definition ex_vec :: "bool \<Rightarrow> real Field3D Vector" where
  "ex_vec b = \<lparr>comp_x = ex_f3 CELL_CENTRE, comp_y = ex_f3 CELL_CENTRE, comp_z = ex_f3 CELL_CENTRE,
              covariant = b\<rparr>"

text \<open>
  A mesh interface for the operator library: unit spacings, every Christoffel symbol zero
  but \<open>G1_23\<close>, index-space primitives that return their argument.
\<close>

definition ex_c2 :: "real \<Rightarrow> real Field2D" where
  "ex_c2 c = \<lparr>loc2d = CELL_CENTRE, data2d = Some (\<lambda>jx jy. c)\<rparr>"

definition ex_coordinates :: "real Coordinates" where
  "ex_coordinates =
     \<lparr>dx = ex_c2 1, dy = ex_c2 1, dz = 1, d1_dx = ex_c2 0, d1_dy = ex_c2 0, non_uniform = False,
      IntShiftTorsion = ex_c2 0,
      G1_13 = ex_c2 0, G1_23 = ex_c2 1, G1_33 = ex_c2 0,
      G2_13 = ex_c2 0, G2_23 = ex_c2 0, G2_33 = ex_c2 0,
      G3_13 = ex_c2 0, G3_23 = ex_c2 0, G3_33 = ex_c2 0\<rparr>"

definition ex_iface :: "real Mesh_interface" where
  "ex_iface =
     \<lparr>coordinates = ex_coordinates,
      IncIntShear = False,
      index = \<lparr>indexDDX = (\<lambda>f l m. f), indexDDY = (\<lambda>f l m. f), indexDDZ = (\<lambda>f l m b. f),
               indexD2DX2 = (\<lambda>f l m. f), indexD2DY2 = (\<lambda>f l m. f), indexD2DZ2 = (\<lambda>f l m b. f),
               indexDDX_2d = (\<lambda>f. f), indexDDY_2d = (\<lambda>f. f),
               indexD2DX2_2d = (\<lambda>f. f), indexD2DY2_2d = (\<lambda>f. f)\<rparr>,
      flux = \<lparr>indexVDDX = (\<lambda>v f l m. ex_f3 CELL_CENTRE), indexVDDY = (\<lambda>v f l m. ex_f3 CELL_CENTRE),
              indexVDDZ = (\<lambda>v f l m. ex_f3 CELL_CENTRE),
              indexFDDX = (\<lambda>v f l m. f), indexFDDY = (\<lambda>v f l m. f), indexFDDZ = (\<lambda>v f l m. f),
              indexFDDX_2d = (\<lambda>v f l m. f), indexFDDY_2d = (\<lambda>v f l m. f),
              indexVDDX_2d = (\<lambda>v f l m. f), indexVDDY_2d = (\<lambda>v f l m. f)\<rparr>\<rparr>"

section \<open>Loops as traversals of index lists\<close>

lemma bindF_simps [simp]: "bindF (Inl e) k = Inl e" "bindF (Inr a) k = k a"
  by (simp_all add: bindF_def)

lemma bindF_assoc: "bindF (bindF r f) g = bindF r (\<lambda>a. bindF (f a) g)"
  by (cases r) simp_all

lemma bindF_Inr [simp]: "bindF r Inr = r"
  by (cases r) simp_all

lemma for_int_iter: "for_int j n body s = for_iter [j..n - 1] body s"
proof (induction j n body s rule: for_int.induct)
  case (1 j n body s)
  show ?case
  proof (cases "j < n")
    case True
    then have "[j..n - 1] = j # [j + 1..n - 1]" by (simp add: upto_rec1)
    with True 1 show ?thesis
      by (subst for_int.simps) (simp split: sum.splits)
  next
    case False
    then show ?thesis by (subst for_int.simps) simp
  qed
qed

lemma for_nat_iter: "for_nat i n body s = for_iter [i..<n] body s"
proof (induction i n body s rule: for_nat.induct)
  case (1 i n body s)
  show ?case
  proof (cases "i < n")
    case True
    then have "[i..<n] = i # [Suc i..<n]" by (simp add: upt_rec)
    with True 1 show ?thesis
      by (subst for_nat.simps) (simp split: sum.splits)
  next
    case False
    then show ?thesis by (subst for_nat.simps) simp
  qed
qed

lemma for_iter_bind: "for_iter (x # xs) body s = bindF (body x s) (for_iter xs body)"
  by (simp add: bindF_def)

lemma for_iter_append: "for_iter (xs @ ys) body s = bindF (for_iter xs body s) (for_iter ys body)"
  by (induction xs arbitrary: s) (simp_all split: sum.splits)

lemma for_iter_map: "for_iter (map h xs) body s = for_iter xs (\<lambda>x. body (h x)) s"
  by (induction xs arbitrary: s) (simp_all split: sum.splits)

lemma for_iter_concat:
  "for_iter (concat (map g xs)) body s = for_iter xs (\<lambda>x. for_iter (g x) body) s"
  by (induction xs arbitrary: s) (simp_all add: for_iter_append bindF_def split: sum.splits)

lemma map_shift_upto: "map (\<lambda>j. j + a) [0..b - a] = [a..b]"
  by (rule nth_equalityI) simp_all


section \<open>The nested loops perform the layout\<close>

text \<open>
  Each loop body of \<open>loop_vars_op\<close> is one step on a layout entry; the loops over variables and
  planes at a point run through \<open>point_slots\<close>; the five regions of \<open>loop_vars\<close> run through
  \<open>traversal\<close>.
\<close>

lemma step_load_2d: "load_2d R jx jy i s = step LOAD_VARS R (jx, jy, Slot2D i) s"
  by (cases s) (simp add: load_2d_def step_def transfer_def split: option.splits)

lemma step_load_3d: "load_3d R jx jy jz i s = step LOAD_VARS R (jx, jy, Slot3D jz i) s"
  by (cases s) (simp add: load_3d_def step_def transfer_def split: option.splits)

lemma step_save_2d: "save_2d R jx jy i s = step SAVE_VARS R (jx, jy, Slot2D i) s"
  by (cases s) (simp add: save_2d_def step_def transfer_def split: option.splits)

lemma step_save_3d: "save_3d R jx jy jz i s = step SAVE_VARS R (jx, jy, Slot3D jz i) s"
  by (cases s) (simp add: save_3d_def step_def transfer_def split: option.splits)

lemma step_save_deriv_2d: "save_deriv_2d R jx jy i s = step SAVE_DERIVS R (jx, jy, Slot2D i) s"
  by (cases s) (simp add: save_deriv_2d_def step_def transfer_def split: option.splits)

lemma step_save_deriv_3d: "save_deriv_3d R jx jy jz i s = step SAVE_DERIVS R (jx, jy, Slot3D jz i) s"
  by (cases s) (simp add: save_deriv_3d_def step_def transfer_def split: option.splits)

lemmas step_bodies = step_load_2d step_load_3d step_save_2d step_save_3d
  step_save_deriv_2d step_save_deriv_3d

lemma for_nat_iter': "for_nat i n body = for_iter [i..<n] body"
  by (rule ext) (rule for_nat_iter)

lemma for_int_iter': "for_int j n body = for_iter [j..n - 1] body"
  by (rule ext) (rule for_int_iter)

lemma bodies:
  "load_2d R jx jy = (\<lambda>i. step LOAD_VARS R (jx, jy, Slot2D i))"
  "load_3d R jx jy jz = (\<lambda>i. step LOAD_VARS R (jx, jy, Slot3D jz i))"
  "save_2d R jx jy = (\<lambda>i. step SAVE_VARS R (jx, jy, Slot2D i))"
  "save_3d R jx jy jz = (\<lambda>i. step SAVE_VARS R (jx, jy, Slot3D jz i))"
  "save_deriv_2d R jx jy = (\<lambda>i. step SAVE_DERIVS R (jx, jy, Slot2D i))"
  "save_deriv_3d R jx jy jz = (\<lambda>i. step SAVE_DERIVS R (jx, jy, Slot3D jz i))"
  by (intro ext, rule step_bodies)+

lemma for_iter_map': "for_iter (map h xs) body = for_iter xs (\<lambda>x. body (h x))"
  by (rule ext) (rule for_iter_map)

lemma for_iter_concat': "for_iter (concat (map g xs)) body = for_iter xs (\<lambda>x. for_iter (g x) body)"
  by (rule ext) (rule for_iter_concat)

lemma point_iter:
  "for_iter (map (\<lambda>sl. (jx, jy, sl)) (point_slots n2 n3 planes)) (step op R) s =
   bindF (for_iter [0..<n2] (\<lambda>i. step op R (jx, jy, Slot2D i)) s)
     (for_iter [0..planes - 1] (\<lambda>jz. for_iter [0..<n3] (\<lambda>i. step op R (jx, jy, Slot3D jz i))))"
proof -
  have "map (\<lambda>sl. (jx, jy, sl)) (point_slots n2 n3 planes) =
        map (\<lambda>i. (jx, jy, Slot2D i)) [0..<n2] @
        concat (map (\<lambda>jz. map (\<lambda>i. (jx, jy, Slot3D jz i)) [0..<n3]) [0..planes - 1])"
    by (simp add: point_slots_def map_concat comp_def)
  then show ?thesis
    by (simp only: for_iter_append for_iter_map' for_iter_concat')
qed

lemma loop_vars_op_iter:
  "loop_vars_op R m jx jy op s =
     for_iter (map (\<lambda>sl. (jx, jy, sl))
                 (point_slots (length (f2d R)) (length (f3d R)) (ngz m - 1)))
       (step op R) s"
  unfolding point_iter loop_vars_op_def Let_def for_nat_iter' for_int_iter' bodies
  by (cases op) simp_all

lemma loop_vars_op_iter':
  "loop_vars_op R m jx jy op =
     for_iter (map (\<lambda>sl. (jx, jy, sl))
                 (point_slots (length (f2d R)) (length (f3d R)) (ngz m - 1)))
       (step op R)"
  by (rule ext) (rule loop_vars_op_iter)

lemma for_points:
  "for_iter pts (\<lambda>pt. loop_vars_op R m (fst pt) (snd pt) op) s =
   for_iter [(fst pt, snd pt, sl). pt \<leftarrow> pts,
               sl \<leftarrow> point_slots (length (f2d R)) (length (f3d R)) (ngz m - 1)] (step op R) s"
  by (simp only: loop_vars_op_iter' for_iter_concat)

lemma region:
  "for_iter xs (\<lambda>x. for_iter ys (\<lambda>y. body x y)) =
   for_iter [(x, y). x \<leftarrow> xs, y \<leftarrow> ys] (\<lambda>pt. body (fst pt) (snd pt))"
  by (simp add: for_iter_concat' for_iter_map')

lemma for_iter_step_run:
  "for_iter es (step op R) (h, u, p) =
     bindF (run_layout op R es p (h, u)) (\<lambda>r. Inr (fst r, snd r, p + length es))"
proof (induction es arbitrary: h u p)
  case Nil
  show ?case by simp
next
  case (Cons e es)
  show ?case
  proof (cases "transfer op R e p (h, u)")
    case (Inl x)
    then show ?thesis by (simp add: step_def)
  next
    case (Inr r)
    then show ?thesis using Cons.IH [of "fst r" "snd r" "Suc p"]
      by (simp add: step_def)
  qed
qed

lemma loop_vars_points:
  "loop_vars R m op h u =
     bindF (for_iter (traversal m) (\<lambda>pt. loop_vars_op R m (fst pt) (snd pt) op) (h, u, 0))
       (\<lambda>s. Inr (fst s, fst (snd s)))"
proof -
  let ?P = "\<lambda>pt. loop_vars_op R m (fst pt) (snd pt) op"
  have shift: "for_int 0 (yend m - ystart m + 1) (\<lambda>jy. loop_vars_op R m jx (jy + ystart m) op) =
               for_iter [ystart m..yend m] (\<lambda>jy. loop_vars_op R m jx jy op)" for jx
  proof -
    have "for_int 0 (yend m - ystart m + 1) (\<lambda>jy. loop_vars_op R m jx (jy + ystart m) op) =
          for_iter [0..yend m - ystart m] (\<lambda>jy. loop_vars_op R m jx (jy + ystart m) op)"
      by (simp add: for_int_iter')
    also have "\<dots> = for_iter (map (\<lambda>j. j + ystart m) [0..yend m - ystart m])
                      (\<lambda>jy. loop_vars_op R m jx jy op)"
      by (simp only: for_iter_map')
    also have "\<dots> = for_iter [ystart m..yend m] (\<lambda>jy. loop_vars_op R m jx jy op)"
      by (simp only: map_shift_upto)
    finally show ?thesis .
  qed
  have r1: "for_int 0 (xstart m) (\<lambda>jx.
              for_int 0 (yend m - ystart m + 1) (\<lambda>jy. loop_vars_op R m jx (jy + ystart m) op)) =
            for_iter [(jx, jy). jx \<leftarrow> [0..xstart m - 1], jy \<leftarrow> [ystart m..yend m]] ?P"
    unfolding shift by (simp only: for_int_iter' region)
  have r2: "for_iter (iterateBndryLowerY m) (\<lambda>ind.
              for_int 0 (ystart m) (\<lambda>jy. loop_vars_op R m ind jy op)) =
            for_iter [(ind, jy). ind \<leftarrow> iterateBndryLowerY m, jy \<leftarrow> [0..ystart m - 1]] ?P"
    by (simp only: for_int_iter' region)
  have r3: "for_int (xstart m) (xend m + 1) (\<lambda>jx.
              for_int (ystart m) (yend m + 1) (\<lambda>jy. loop_vars_op R m jx jy op)) =
            for_iter [(jx, jy). jx \<leftarrow> [xstart m..xend m], jy \<leftarrow> [ystart m..yend m]] ?P"
    by (simp only: for_int_iter' region add_diff_cancel_right')
  have r4: "for_iter (iterateBndryUpperY m) (\<lambda>ind.
              for_int (yend m + 1) (ngy m) (\<lambda>jy. loop_vars_op R m ind jy op)) =
            for_iter [(ind, jy). ind \<leftarrow> iterateBndryUpperY m, jy \<leftarrow> [yend m + 1..ngy m - 1]] ?P"
    by (simp only: for_int_iter' region)
  have r5: "for_int (xend m + 1) (ngx m) (\<lambda>jx.
              for_int (ystart m) (yend m + 1) (\<lambda>jy. loop_vars_op R m jx jy op)) =
            for_iter [(jx, jy). jx \<leftarrow> [xend m + 1..ngx m - 1], jy \<leftarrow> [ystart m..yend m]] ?P"
    by (simp only: for_int_iter' region add_diff_cancel_right')
  show ?thesis
    unfolding loop_vars_def Let_def r1 r2 r3 r4 r5 traversal_def
    by (simp add: for_iter_append bindF_assoc)
qed

lemma loop_vars_layout:
  "loop_vars R m op h u = run_layout op R (layout m (length (f2d R)) (length (f3d R))) 0 (h, u)"
  by (simp add: loop_vars_points for_points layout_def for_iter_step_run bindF_assoc)

section \<open>SAVE\<close>

text \<open>
  SAVE leaves the store as the basis conversions made it and puts at buffer position \<open>k\<close> the
  value of the \<open>k\<close>-th layout entry.
\<close>

lemma null_data_2d_iff: "null_data_2d h xs = (\<exists>x \<in> set xs. data2d (fields2 h (var x)) = None)"
  by (induction xs) auto

lemma null_data_3d_iff: "null_data_3d h xs = (\<exists>x \<in> set xs. data3d (fields3 h (var x)) = None)"
  by (induction xs) auto

lemma layout_slots:
  assumes "e \<in> set (layout m n2 n3)"
  shows "case snd (snd e) of Slot2D i \<Rightarrow> i < n2 | Slot3D jz i \<Rightarrow> i < n3"
  using assms by (auto simp: layout_def point_slots_def)

lemma layout_in_range:
  assumes "e \<in> set (layout m (length (f2d R)) (length (f3d R)))"
  shows "in_range R e"
  using layout_slots [OF assms] by (simp add: in_range_def)

lemma allocated_readable:
  assumes "\<not> unallocated R h" "in_range R e"
  shows "readable R h e"
proof -
  obtain jx jy sl where e: "e = (jx, jy, sl)" by (cases e)
  show ?thesis
  proof (cases sl)
    case (Slot2D i)
    with assms(2) e have "i < length (f2d R)" by (simp add: in_range_def)
    then have "f2d R ! i \<in> set (f2d R)" by simp
    with assms(1) have "data2d (fields2 h (var (f2d R ! i))) \<noteq> None"
      by (auto simp: unallocated_def)
    with e Slot2D show ?thesis by (auto simp: readable_def)
  next
    case (Slot3D jz i)
    with assms(2) e have "i < length (f3d R)" by (simp add: in_range_def)
    then have "f3d R ! i \<in> set (f3d R)" by simp
    with assms(1) have "data3d (fields3 h (var (f3d R ! i))) \<noteq> None"
      by (auto simp: unallocated_def)
    with e Slot3D show ?thesis by (auto simp: readable_def)
  qed
qed

lemma run_save:
  assumes "\<forall>e \<in> set es. readable R h e" "k + length es \<le> length u"
  shows "\<exists>u'. run_layout SAVE_VARS R es k (h, u) = Inr (h, u') \<and> length u' = length u \<and>
              (\<forall>j < length es. slot_value False R h (es ! j) = Inr (u' ! (k + j))) \<and>
              (\<forall>j < k. u' ! j = u ! j)"
  using assms
proof (induction es arbitrary: k u)
  case Nil
  then show ?case by simp
next
  case (Cons e es)
  from Cons.prems obtain a where a: "slot_value False R h e = Inr a"
    by (auto simp: readable_def)
  from Cons.prems have k: "k < length u" by simp
  have t: "transfer SAVE_VARS R e k (h, u) = Inr (h, u[k := a])"
    using a k by (simp add: transfer_def)
  from Cons.prems have "\<forall>e \<in> set es. readable R h e" "Suc k + length es \<le> length (u[k := a])"
    by simp_all
  from Cons.IH [OF this] obtain u' where u':
    "run_layout SAVE_VARS R es (Suc k) (h, u[k := a]) = Inr (h, u')"
    "length u' = length u"
    "\<forall>j < length es. slot_value False R h (es ! j) = Inr (u' ! (Suc k + j))"
    "\<forall>j < Suc k. u' ! j = u[k := a] ! j"
    by auto
  from u'(4) k have uk: "u' ! k = a" by simp
  have "\<forall>j < length (e # es). slot_value False R h ((e # es) ! j) = Inr (u' ! (k + j))"
  proof (intro allI impI)
    fix j assume "j < length (e # es)"
    then show "slot_value False R h ((e # es) ! j) = Inr (u' ! (k + j))"
      using a uk u'(3) by (cases j) simp_all
  qed
  moreover have "\<forall>j < k. u' ! j = u ! j" using u'(4) by simp
  ultimately show ?case using t u'(1,2) by simp
qed

lemma save_vars_unallocated:
  assumes "unallocated R h"
  shows "save_vars L m R h u = Inr (1, h, u)"
proof -
  have "null_data_2d h (f2d R) \<or> null_data_3d h (f3d R)"
    using assms by (simp add: unallocated_def null_data_2d_iff null_data_3d_iff)
  then show ?thesis
    by (cases "null_data_2d h (f2d R)") (simp_all add: save_vars_def)
qed

lemma save_vars_allocated:
  assumes "\<not> unallocated R h"
  shows "save_vars L m R h u =
           bindF (loop_vars R m SAVE_VARS (declared_basis L R h) u) (\<lambda>r. Inr (0, fst r, snd r))"
proof -
  have "\<not> null_data_2d h (f2d R)" "\<not> null_data_3d h (f3d R)"
    using assms by (auto simp: unallocated_def null_data_2d_iff null_data_3d_iff)
  then show ?thesis by (simp add: save_vars_def)
qed

lemma save_vars_ok:
  assumes "\<not> unallocated R h" "\<not> unallocated R (declared_basis L R h)"
    and "length (layout m (length (f2d R)) (length (f3d R))) \<le> length u"
  shows "\<exists>u1. save_vars L m R h u = Inr (0, declared_basis L R h, u1) \<and> length u1 = length u \<and>
           (\<forall>j < length (layout m (length (f2d R)) (length (f3d R))).
              slot_value False R (declared_basis L R h)
                (layout m (length (f2d R)) (length (f3d R)) ! j) = Inr (u1 ! j))"
proof -
  let ?es = "layout m (length (f2d R)) (length (f3d R))"
  let ?g = "declared_basis L R h"
  have "\<forall>e \<in> set ?es. readable R ?g e"
    using assms(2) by (blast intro: allocated_readable layout_in_range)
  moreover have "0 + length ?es \<le> length u" using assms(3) by simp
  ultimately have "\<exists>u'. run_layout SAVE_VARS R ?es 0 (?g, u) = Inr (?g, u') \<and> length u' = length u \<and>
              (\<forall>j < length ?es. slot_value False R ?g (?es ! j) = Inr (u' ! (0 + j))) \<and>
              (\<forall>j < 0. u' ! j = u ! j)"
    by (rule run_save)
  then obtain u1 where u1:
    "run_layout SAVE_VARS R ?es 0 (?g, u) = Inr (?g, u1)" "length u1 = length u"
    "\<forall>j < length ?es. slot_value False R ?g (?es ! j) = Inr (u1 ! (0 + j))"
    by (elim exE conjE)
  have "loop_vars R m SAVE_VARS ?g u = Inr (?g, u1)"
    using u1(1) by (simp only: loop_vars_layout)
  then have "save_vars L m R h u = Inr (0, ?g, u1)"
    using save_vars_allocated [OF assms(1), of L m u] by simp
  moreover have "\<forall>j < length ?es. slot_value False R ?g (?es ! j) = Inr (u1 ! j)"
    using u1(3) by simp
  ultimately show ?thesis using u1(2) by (intro exI conjI)
qed

lemma declared_basis_no_vectors: "v2d R = [] \<Longrightarrow> v3d R = [] \<Longrightarrow> declared_basis L R h = h"
  by (simp add: declared_basis_def)

section \<open>LOAD\<close>

text \<open>
  A value read through a layout entry depends on the storage cell of the entry alone; a
  store through an entry changes the value of exactly the entries with the same cell.
\<close>

lemma slot_value_cong:
  "fields2 h = fields2 h' \<Longrightarrow> fields3 h = fields3 h' \<Longrightarrow> slot_value b R h e = slot_value b R h' e"
  by (cases "(b, R, h, e)" rule: slot_value.cases) simp_all

lemma unallocated_cong:
  "fields2 h = fields2 h' \<Longrightarrow> fields3 h = fields3 h' \<Longrightarrow> unallocated R h = unallocated R h'"
  by (simp add: unallocated_def)

lemma slot_value_same_cell:
  assumes "cell R e = cell R e'"
  shows "slot_value False R h e = slot_value False R h e'"
proof -
  obtain jx jy sl where e: "e = (jx, jy, sl)" by (cases e)
  obtain jx' jy' sl' where e': "e' = (jx', jy', sl')" by (cases e')
  show ?thesis using assms e e' by (cases sl; cases sl') simp_all
qed

lemma slot_store_value:
  assumes "slot_store R h e a = Inr h'"
  shows "slot_value False R h' e' = (if cell R e' = cell R e then Inr a else slot_value False R h e')"
proof -
  obtain jx jy sl where e: "e = (jx, jy, sl)" by (cases e)
  obtain jx' jy' sl' where e': "e' = (jx', jy', sl')" by (cases e')
  show ?thesis
  proof (cases sl)
    case (Slot2D i)
    with assms e obtain d where d: "data2d (fields2 h (var (f2d R ! i))) = Some d"
      and h': "h' = h\<lparr>fields2 := (fields2 h)(var (f2d R ! i) :=
                     (fields2 h (var (f2d R ! i)))\<lparr>data2d := Some (store2 d jx jy a)\<rparr>)\<rparr>"
      by (auto split: option.splits)
    show ?thesis
    proof (cases sl')
      case s2: (Slot2D i')
      show ?thesis
        using d by (simp add: e e' Slot2D s2 h' store2_def)
    next
      case s3: (Slot3D jz' i')
      show ?thesis by (simp add: e e' Slot2D s3 h')
    qed
  next
    case (Slot3D jz i)
    with assms e obtain d where d: "data3d (fields3 h (var (f3d R ! i))) = Some d"
      and h': "h' = h\<lparr>fields3 := (fields3 h)(var (f3d R ! i) :=
                     (fields3 h (var (f3d R ! i)))\<lparr>data3d := Some (store3 d jx jy jz a)\<rparr>)\<rparr>"
      by (auto split: option.splits)
    show ?thesis
    proof (cases sl')
      case s2: (Slot2D i')
      show ?thesis by (simp add: e e' Slot3D s2 h')
    next
      case s3: (Slot3D jz' i')
      show ?thesis
        using d by (simp add: e e' Slot3D s3 h' store3_def)
    qed
  qed
qed

lemma slot_store_allocated:
  assumes "\<not> unallocated R h" "in_range R e"
  shows "\<exists>h'. slot_store R h e a = Inr h' \<and> \<not> unallocated R h'"
proof -
  obtain jx jy sl where e: "e = (jx, jy, sl)" by (cases e)
  show ?thesis
  proof (cases sl)
    case (Slot2D i)
    with assms(2) e have "i < length (f2d R)" by (simp add: in_range_def)
    then have "f2d R ! i \<in> set (f2d R)" by simp
    with assms(1) obtain d where d: "data2d (fields2 h (var (f2d R ! i))) = Some d"
      by (auto simp: unallocated_def)
    let ?h = "h\<lparr>fields2 := (fields2 h)(var (f2d R ! i) :=
                (fields2 h (var (f2d R ! i)))\<lparr>data2d := Some (store2 d jx jy a)\<rparr>)\<rparr>"
    have "\<not> unallocated R ?h" using assms(1) by (auto simp: unallocated_def)
    moreover have "slot_store R h e a = Inr ?h" using d e Slot2D by simp
    ultimately show ?thesis by blast
  next
    case (Slot3D jz i)
    with assms(2) e have "i < length (f3d R)" by (simp add: in_range_def)
    then have "f3d R ! i \<in> set (f3d R)" by simp
    with assms(1) obtain d where d: "data3d (fields3 h (var (f3d R ! i))) = Some d"
      by (auto simp: unallocated_def)
    let ?h = "h\<lparr>fields3 := (fields3 h)(var (f3d R ! i) :=
                (fields3 h (var (f3d R ! i)))\<lparr>data3d := Some (store3 d jx jy jz a)\<rparr>)\<rparr>"
    have "\<not> unallocated R ?h" using assms(1) by (auto simp: unallocated_def)
    moreover have "slot_store R h e a = Inr ?h" using d e Slot3D by simp
    ultimately show ?thesis by blast
  qed
qed

text \<open>
  LOAD of a buffer that holds the values of a store \<open>g\<close> gives, in whatever allocated store it
  works on, every entry of the layout the value it has in \<open>g\<close>. \<open>S\<close> are the entries already
  written.
\<close>

lemma run_load_values:
  assumes "\<not> unallocated R w" "\<forall>e \<in> set es. in_range R e" "k + length es \<le> length u"
    and "\<forall>j < length es. slot_value False R g (es ! j) = Inr (u ! (k + j))"
    and "\<forall>e \<in> S. slot_value False R w e = slot_value False R g e"
  shows "\<exists>w'. run_layout LOAD_VARS R es k (w, u) = Inr (w', u) \<and> \<not> unallocated R w' \<and>
              (\<forall>e \<in> S \<union> set es. slot_value False R w' e = slot_value False R g e)"
  using assms
proof (induction es arbitrary: w k S)
  case Nil
  then show ?case by simp
next
  case (Cons e es)
  from Cons.prems(2) have "in_range R e" by simp
  from slot_store_allocated [OF Cons.prems(1) this, of "u ! k"] obtain w1 where w1:
    "slot_store R w e (u ! k) = Inr w1" "\<not> unallocated R w1"
    by blast
  from Cons.prems(3) have k: "k < length u" by simp
  have t: "transfer LOAD_VARS R e k (w, u) = Inr (w1, u)"
    using w1(1) k by (simp add: transfer_def)
  from Cons.prems(4) have ge: "slot_value False R g e = Inr (u ! k)" by fastforce
  have S': "\<forall>e' \<in> insert e S. slot_value False R w1 e' = slot_value False R g e'"
  proof
    fix e' assume m: "e' \<in> insert e S"
    show "slot_value False R w1 e' = slot_value False R g e'"
    proof (cases "cell R e' = cell R e")
      case True
      then have "slot_value False R g e' = slot_value False R g e" by (rule slot_value_same_cell)
      with True ge show ?thesis by (simp add: slot_store_value [OF w1(1)])
    next
      case False
      then have "e' \<noteq> e" by auto
      with m have "e' \<in> S" by simp
      with Cons.prems(5) have "slot_value False R w e' = slot_value False R g e'" by simp
      with False show ?thesis by (simp add: slot_store_value [OF w1(1)])
    qed
  qed
  have rest: "\<forall>j < length es. slot_value False R g (es ! j) = Inr (u ! (Suc k + j))"
  proof (intro allI impI)
    fix j assume "j < length es"
    then have "Suc j < length (e # es)" by simp
    with Cons.prems(4) have "slot_value False R g ((e # es) ! Suc j) = Inr (u ! (k + Suc j))" by blast
    then show "slot_value False R g (es ! j) = Inr (u ! (Suc k + j))" by simp
  qed
  from Cons.prems(2) have "\<forall>e \<in> set es. in_range R e" by simp
  moreover from Cons.prems(3) have "Suc k + length es \<le> length u" by simp
  ultimately have "\<exists>w'. run_layout LOAD_VARS R es (Suc k) (w1, u) = Inr (w', u) \<and>
              \<not> unallocated R w' \<and>
              (\<forall>e \<in> insert e S \<union> set es. slot_value False R w' e = slot_value False R g e)"
    using w1(2) rest S' by (intro Cons.IH)
  with t show ?case by simp
qed

text \<open>The allocation loops of LOAD give every registered variable storage.\<close>

lemma fold_allocate2:
  "fields3 (fold (\<lambda>x h. h\<lparr>fields2 := (fields2 h)(var x := allocate2 L (fields2 h (var x)))\<rparr>) xs h)
     = fields3 h \<and>
   (data2d (fields2 (fold (\<lambda>x h. h\<lparr>fields2 := (fields2 h)(var x := allocate2 L (fields2 h (var x)))\<rparr>) xs h) a)
      \<noteq> None) = (data2d (fields2 h a) \<noteq> None \<or> a \<in> var ` set xs)"
  by (induction xs arbitrary: h) (auto simp: allocate2_def split: option.splits)

lemma fold_allocate3:
  "fields2 (fold (\<lambda>x h. h\<lparr>fields3 := (fields3 h)(var x :=
              (allocate3 L (fields3 h (var x)))\<lparr>loc3d := location x\<rparr>)\<rparr>) xs h) = fields2 h \<and>
   (data3d (fields3 (fold (\<lambda>x h. h\<lparr>fields3 := (fields3 h)(var x :=
              (allocate3 L (fields3 h (var x)))\<lparr>loc3d := location x\<rparr>)\<rparr>) xs h) a) \<noteq> None)
     = (data3d (fields3 h a) \<noteq> None \<or> a \<in> var ` set xs)"
  by (induction xs arbitrary: h) (auto simp: allocate3_def split: option.splits)

lemma fold_flags2:
  "fields2 (fold (\<lambda>x h. h\<lparr>vectors2 := (vectors2 h)(var x :=
              (vectors2 h (var x))\<lparr>covariant := vs_covariant x\<rparr>)\<rparr>) xs h) = fields2 h \<and>
   fields3 (fold (\<lambda>x h. h\<lparr>vectors2 := (vectors2 h)(var x :=
              (vectors2 h (var x))\<lparr>covariant := vs_covariant x\<rparr>)\<rparr>) xs h) = fields3 h"
  by (induction xs arbitrary: h) simp_all

lemma fold_flags3:
  "fields2 (fold (\<lambda>x h. h\<lparr>vectors3 := (vectors3 h)(var x :=
              (vectors3 h (var x))\<lparr>covariant := vs_covariant x\<rparr>)\<rparr>) xs h) = fields2 h \<and>
   fields3 (fold (\<lambda>x h. h\<lparr>vectors3 := (vectors3 h)(var x :=
              (vectors3 h (var x))\<lparr>covariant := vs_covariant x\<rparr>)\<rparr>) xs h) = fields3 h"
  by (induction xs arbitrary: h) simp_all

text \<open>
  The last two loops of LOAD set the flag of every registered vector; a vector that is
  registered once ends with the flag of its declared basis.
\<close>

lemma fold_flags_other:
  "a \<notin> var ` set xs \<Longrightarrow>
   vectors3 (fold (\<lambda>x h. h\<lparr>vectors3 := (vectors3 h)(var x :=
              (vectors3 h (var x))\<lparr>covariant := vs_covariant x\<rparr>)\<rparr>) xs h) a = vectors3 h a"
  by (induction xs arbitrary: h) simp_all

lemma fold_flags_declared:
  "distinct (map var xs) \<Longrightarrow> x \<in> set xs \<Longrightarrow>
   covariant (vectors3 (fold (\<lambda>x h. h\<lparr>vectors3 := (vectors3 h)(var x :=
              (vectors3 h (var x))\<lparr>covariant := vs_covariant x\<rparr>)\<rparr>) xs h) (var x)) = vs_covariant x"
proof (induction xs arbitrary: h)
  case Nil
  then show ?case by simp
next
  case (Cons y ys)
  let ?F = "\<lambda>x h. h\<lparr>vectors3 := (vectors3 h)(var x :=
              (vectors3 h (var x))\<lparr>covariant := vs_covariant x\<rparr>)\<rparr>"
  have step: "fold ?F (y # ys) h = fold ?F ys (?F y h)" by (simp only: fold_simps o_apply)
  show ?case
  proof (cases "x = y")
    case True
    from Cons.prems(1) have "var y \<notin> var ` set ys" by simp
    then have "vectors3 (fold ?F ys (?F y h)) (var y) = vectors3 (?F y h) (var y)"
      by (rule fold_flags_other)
    also have "covariant (vectors3 (?F y h) (var y)) = vs_covariant y" by simp
    finally show ?thesis unfolding True step .
  next
    case False
    with Cons.prems have "distinct (map var ys)" "x \<in> set ys" by simp_all
    then have "covariant (vectors3 (fold ?F ys (?F y h)) (var x)) = vs_covariant x"
      by (rule Cons.IH)
    then show ?thesis unfolding step .
  qed
qed

lemma fold_flags2_other:
  "a \<notin> var ` set xs \<Longrightarrow>
   vectors2 (fold (\<lambda>x h. h\<lparr>vectors2 := (vectors2 h)(var x :=
              (vectors2 h (var x))\<lparr>covariant := vs_covariant x\<rparr>)\<rparr>) xs h) a = vectors2 h a"
  by (induction xs arbitrary: h) simp_all

lemma fold_flags2_declared:
  "distinct (map var xs) \<Longrightarrow> x \<in> set xs \<Longrightarrow>
   covariant (vectors2 (fold (\<lambda>x h. h\<lparr>vectors2 := (vectors2 h)(var x :=
              (vectors2 h (var x))\<lparr>covariant := vs_covariant x\<rparr>)\<rparr>) xs h) (var x)) = vs_covariant x"
proof (induction xs arbitrary: h)
  case Nil
  then show ?case by simp
next
  case (Cons y ys)
  let ?F = "\<lambda>x h. h\<lparr>vectors2 := (vectors2 h)(var x :=
              (vectors2 h (var x))\<lparr>covariant := vs_covariant x\<rparr>)\<rparr>"
  have step: "fold ?F (y # ys) h = fold ?F ys (?F y h)" by (simp only: fold_simps o_apply)
  show ?case
  proof (cases "x = y")
    case True
    from Cons.prems(1) have "var y \<notin> var ` set ys" by simp
    then have "vectors2 (fold ?F ys (?F y h)) (var y) = vectors2 (?F y h) (var y)"
      by (rule fold_flags2_other)
    also have "covariant (vectors2 (?F y h) (var y)) = vs_covariant y" by simp
    finally show ?thesis unfolding True step .
  next
    case False
    with Cons.prems have "distinct (map var ys)" "x \<in> set ys" by simp_all
    then have "covariant (vectors2 (fold ?F ys (?F y h)) (var x)) = vs_covariant x"
      by (rule Cons.IH)
    then show ?thesis unfolding step .
  qed
qed

lemma fold_flags3_vectors2:
  "vectors2 (fold (\<lambda>x h. h\<lparr>vectors3 := (vectors3 h)(var x :=
              (vectors3 h (var x))\<lparr>covariant := vs_covariant x\<rparr>)\<rparr>) xs h) = vectors2 h"
  by (induction xs arbitrary: h) simp_all

text \<open>
  LOAD of a buffer that holds, in layout order, the values of a store \<open>g\<close>: whatever the store
  \<open>h\<close> it starts from, it returns, and every entry of the layout then has the value it has in
  \<open>g\<close>.
\<close>

lemma load_vars_values:
  assumes "length (layout m (length (f2d R)) (length (f3d R))) \<le> length u"
    and "\<forall>j < length (layout m (length (f2d R)) (length (f3d R))).
           slot_value False R g (layout m (length (f2d R)) (length (f3d R)) ! j) = Inr (u ! j)"
  shows "\<exists>h2. load_vars L m R h u = Inr h2 \<and> \<not> unallocated R h2 \<and>
           (\<forall>e \<in> set (layout m (length (f2d R)) (length (f3d R))).
              slot_value False R h2 e = slot_value False R g e) \<and>
           (distinct (map var (v2d R)) \<longrightarrow>
              (\<forall>x \<in> set (v2d R). covariant (vectors2 h2 (var x)) = vs_covariant x)) \<and>
           (distinct (map var (v3d R)) \<longrightarrow>
              (\<forall>x \<in> set (v3d R). covariant (vectors3 h2 (var x)) = vs_covariant x))"
proof -
  let ?es = "layout m (length (f2d R)) (length (f3d R))"
  let ?a2 = "fold (\<lambda>x h. h\<lparr>fields2 := (fields2 h)(var x := allocate2 L (fields2 h (var x)))\<rparr>) (f2d R) h"
  let ?a3 = "fold (\<lambda>x h. h\<lparr>fields3 := (fields3 h)(var x :=
               (allocate3 L (fields3 h (var x)))\<lparr>loc3d := location x\<rparr>)\<rparr>) (f3d R) ?a2"
  have alloc: "\<not> unallocated R ?a3"
  proof -
    have "data2d (fields2 ?a3 (var x)) \<noteq> None" if "x \<in> set (f2d R)" for x
    proof -
      have "fields2 ?a3 = fields2 ?a2" using fold_allocate3 [of L "f3d R" ?a2] by simp
      moreover have "data2d (fields2 ?a2 (var x)) \<noteq> None"
        using fold_allocate2 [of L "f2d R" h "var x"] that by blast
      ultimately show ?thesis by simp
    qed
    moreover have "data3d (fields3 ?a3 (var x)) \<noteq> None" if "x \<in> set (f3d R)" for x
      using fold_allocate3 [of L "f3d R" ?a2 "var x"] that by blast
    ultimately show ?thesis by (auto simp: unallocated_def)
  qed
  have "\<forall>e \<in> set ?es. in_range R e" by (blast intro: layout_in_range)
  moreover have "0 + length ?es \<le> length u" using assms(1) by simp
  moreover have "\<forall>j < length ?es. slot_value False R g (?es ! j) = Inr (u ! (0 + j))"
    using assms(2) by simp
  moreover have "\<forall>e \<in> {}. slot_value False R ?a3 e = slot_value False R g e" by simp
  ultimately have "\<exists>w'. run_layout LOAD_VARS R ?es 0 (?a3, u) = Inr (w', u) \<and>
              \<not> unallocated R w' \<and>
              (\<forall>e \<in> {} \<union> set ?es. slot_value False R w' e = slot_value False R g e)"
    using alloc by (intro run_load_values)
  then obtain w where w: "run_layout LOAD_VARS R ?es 0 (?a3, u) = Inr (w, u)"
    "\<not> unallocated R w" "\<forall>e \<in> set ?es. slot_value False R w e = slot_value False R g e"
    by auto
  let ?f2 = "fold (\<lambda>x h. h\<lparr>vectors2 := (vectors2 h)(var x :=
               (vectors2 h (var x))\<lparr>covariant := vs_covariant x\<rparr>)\<rparr>) (v2d R) w"
  let ?f3 = "fold (\<lambda>x h. h\<lparr>vectors3 := (vectors3 h)(var x :=
               (vectors3 h (var x))\<lparr>covariant := vs_covariant x\<rparr>)\<rparr>) (v3d R) ?f2"
  have "loop_vars R m LOAD_VARS ?a3 u = Inr (w, u)" using w(1) by (simp only: loop_vars_layout)
  then have l: "load_vars L m R h u = Inr ?f3" by (simp add: load_vars_def Let_def)
  have f: "fields2 ?f3 = fields2 w" "fields3 ?f3 = fields3 w"
    using fold_flags3 [of "v3d R" ?f2] fold_flags2 [of "v2d R" w] by simp_all
  have "\<not> unallocated R ?f3" using w(2) unallocated_cong [OF f, of R] by simp
  moreover have "\<forall>e \<in> set ?es. slot_value False R ?f3 e = slot_value False R g e"
    using w(3) slot_value_cong [OF f, of False R] by simp
  moreover have "distinct (map var (v2d R)) \<longrightarrow>
              (\<forall>x \<in> set (v2d R). covariant (vectors2 ?f3 (var x)) = vs_covariant x)"
  proof (intro impI ballI)
    fix x assume "distinct (map var (v2d R))" "x \<in> set (v2d R)"
    then have "covariant (vectors2 ?f2 (var x)) = vs_covariant x" by (rule fold_flags2_declared)
    then show "covariant (vectors2 ?f3 (var x)) = vs_covariant x"
      by (simp only: fold_flags3_vectors2)
  qed
  moreover have "distinct (map var (v3d R)) \<longrightarrow>
              (\<forall>x \<in> set (v3d R). covariant (vectors3 ?f3 (var x)) = vs_covariant x)"
  proof (intro impI ballI)
    fix x assume "distinct (map var (v3d R))" "x \<in> set (v3d R)"
    then show "covariant (vectors3 ?f3 (var x)) = vs_covariant x" by (rule fold_flags_declared)
  qed
  ultimately show ?thesis using l by (intro exI conjI)
qed

text \<open>SAVE, then LOAD of the buffer SAVE filled into any store.\<close>

lemma save_load_values:
  assumes "\<not> unallocated R h" "\<not> unallocated R (declared_basis L R h)"
    and "length (layout m (length (f2d R)) (length (f3d R))) \<le> length u"
  shows "\<exists>u1. save_vars L m R h u = Inr (0, declared_basis L R h, u1) \<and>
           (\<forall>h'. \<exists>h2. load_vars L m R h' u1 = Inr h2 \<and>
              (\<forall>e \<in> set (layout m (length (f2d R)) (length (f3d R))).
                 \<exists>a. slot_value False R h2 e = Inr a \<and>
                     slot_value False R (declared_basis L R h) e = Inr a) \<and>
              (distinct (map var (v2d R)) \<longrightarrow>
                 (\<forall>x \<in> set (v2d R). covariant (vectors2 h2 (var x)) = vs_covariant x)) \<and>
              (distinct (map var (v3d R)) \<longrightarrow>
                 (\<forall>x \<in> set (v3d R). covariant (vectors3 h2 (var x)) = vs_covariant x)))"
proof -
  let ?es = "layout m (length (f2d R)) (length (f3d R))"
  let ?g = "declared_basis L R h"
  from save_vars_ok [OF assms] obtain u1 where u1:
    "save_vars L m R h u = Inr (0, ?g, u1)" "length u1 = length u"
    "\<forall>j < length ?es. slot_value False R ?g (?es ! j) = Inr (u1 ! j)"
    by blast
  have len: "length ?es \<le> length u1" using assms(3) u1(2) by simp
  have "\<exists>h2. load_vars L m R h' u1 = Inr h2 \<and>
              (\<forall>e \<in> set ?es. \<exists>a. slot_value False R h2 e = Inr a \<and> slot_value False R ?g e = Inr a) \<and>
              (distinct (map var (v2d R)) \<longrightarrow>
                 (\<forall>x \<in> set (v2d R). covariant (vectors2 h2 (var x)) = vs_covariant x)) \<and>
              (distinct (map var (v3d R)) \<longrightarrow>
                 (\<forall>x \<in> set (v3d R). covariant (vectors3 h2 (var x)) = vs_covariant x))" for h'
  proof -
    from load_vars_values [OF len u1(3), of L h'] obtain h2 where h2:
      "load_vars L m R h' u1 = Inr h2"
      "\<forall>e \<in> set ?es. slot_value False R h2 e = slot_value False R ?g e"
      "distinct (map var (v2d R)) \<longrightarrow>
         (\<forall>x \<in> set (v2d R). covariant (vectors2 h2 (var x)) = vs_covariant x)"
      "distinct (map var (v3d R)) \<longrightarrow>
         (\<forall>x \<in> set (v3d R). covariant (vectors3 h2 (var x)) = vs_covariant x)"
      by blast
    have "\<exists>a. slot_value False R h2 e = Inr a \<and> slot_value False R ?g e = Inr a"
      if "e \<in> set ?es" for e
    proof -
      from that have "readable R ?g e" using assms(2) by (blast intro: allocated_readable layout_in_range)
      then obtain a where "slot_value False R ?g e = Inr a" by (auto simp: readable_def)
      with h2(2) that show ?thesis by simp
    qed
    with h2(1,3,4) show ?thesis by blast
  qed
  with u1(1) show ?thesis by blast
qed

section \<open>The worked instance, evaluated\<close>

lemma upto_small: "[0..1::int] = [0, 1]" "[0..0::int] = [0]" "[1..1::int] = [1]" "[2..2::int] = [2]"
  by (simp_all add: upto_rec1)

text \<open>
  The layout on the example mesh: the inner X stripe \<open>(0,1)\<close>, the lower Y boundary \<open>(1,0)\<close>,
  the bulk \<open>(1,1)\<close>, the upper Y boundary \<open>(1,2)\<close>, the outer X stripe \<open>(2,1)\<close>; at each point the
  2D variable, then the three 3D variables on plane 0 and on plane 1.
\<close>

lemma ex_layout:
  "layout ex_mesh (length (f2d ex_registry)) (length (f3d ex_registry)) =
     [(0, 1, Slot2D 0), (0, 1, Slot3D 0 0), (0, 1, Slot3D 0 1), (0, 1, Slot3D 0 2),
                        (0, 1, Slot3D 1 0), (0, 1, Slot3D 1 1), (0, 1, Slot3D 1 2),
      (1, 0, Slot2D 0), (1, 0, Slot3D 0 0), (1, 0, Slot3D 0 1), (1, 0, Slot3D 0 2),
                        (1, 0, Slot3D 1 0), (1, 0, Slot3D 1 1), (1, 0, Slot3D 1 2),
      (1, 1, Slot2D 0), (1, 1, Slot3D 0 0), (1, 1, Slot3D 0 1), (1, 1, Slot3D 0 2),
                        (1, 1, Slot3D 1 0), (1, 1, Slot3D 1 1), (1, 1, Slot3D 1 2),
      (1, 2, Slot2D 0), (1, 2, Slot3D 0 0), (1, 2, Slot3D 0 1), (1, 2, Slot3D 0 2),
                        (1, 2, Slot3D 1 0), (1, 2, Slot3D 1 1), (1, 2, Slot3D 1 2),
      (2, 1, Slot2D 0), (2, 1, Slot3D 0 0), (2, 1, Slot3D 0 1), (2, 1, Slot3D 0 2),
                        (2, 1, Slot3D 1 0), (2, 1, Slot3D 1 1), (2, 1, Slot3D 1 2)]"
  by (simp add: layout_def traversal_def point_slots_def ex_mesh_def ex_registry_def upto_small
      upt_rec)

lemma ex_allocated: "\<not> unallocated ex_registry ex_store"
  by (simp add: unallocated_def ex_registry_def ex_store_def ex_f2_def ex_f3_def)

text \<open>
  The store after the basis conversions of SAVE under the second instance of the
  conversions: the three components of the vector are doubled and its flag is set.
\<close>

lemma ex_basis:
  "declared_basis ex_lib_metric ex_registry ex_store =
     ex_store\<lparr>fields3 := (fields3 ex_store)(0 := scale3 2 (ex_f3 CELL_YLOW),
                  1 := scale3 2 (ex_f3 CELL_CENTRE), 2 := scale3 2 (ex_f3 CELL_CENTRE)),
              vectors3 := (vectors3 ex_store)
                 (0 := \<lparr>comp_x = 0, comp_y = 1, comp_z = 2, covariant = True\<rparr>)\<rparr>"
  by (simp add: declared_basis_def to_basis3_def read_vector3_def write_vector3_def
      ex_registry_def ex_store_def ex_lib_metric_def ex_lib_def scale_vector3_def)

lemma ex_allocated_basis:
  "\<not> unallocated ex_registry (declared_basis ex_lib_metric ex_registry ex_store)"
  unfolding ex_basis
  by (simp add: unallocated_def ex_registry_def ex_store_def ex_f2_def ex_f3_def scale3_def)

lemma ex_buffer_fits:
  "length (layout ex_mesh (length (f2d ex_registry)) (length (f3d ex_registry))) \<le> length ex_buffer"
  by (simp add: ex_layout ex_buffer_def)

lemma ex_entry:
  "(1, 1, Slot3D 0 0) \<in> set (layout ex_mesh (length (f2d ex_registry)) (length (f3d ex_registry)))"
  by (simp add: ex_layout)

lemma ex_value: "slot_value False ex_registry ex_store (1, 1, Slot3D 0 0) = Inr 110"
  by (simp add: ex_registry_def ex_store_def ex_f3_def)

lemma ex_basis_value:
  "slot_value False ex_registry (declared_basis ex_lib_metric ex_registry ex_store)
     (1, 1, Slot3D 0 0) = Inr 220"
  unfolding ex_basis by (simp add: ex_registry_def ex_store_def ex_f3_def scale3_def)

lemma ex_unset_unallocated: "unallocated ex_registry ex_store_unset"
  by (simp add: unallocated_def ex_registry_def ex_store_unset_def)

lemma ex_distinct: "distinct (map var (v3d ex_registry))"
  by (simp add: ex_registry_def)

lemmas ex_layout_n = ex_layout [unfolded ex_registry_def, simplified]

section \<open>Properties of the codec\<close>

text \<open>
  C1. SAVE, LOAD and SAVE\_DERIVS all go through \<open>loop_vars\<close>, and for each of the three
  operations the nested loops of \<open>loop_vars\<close> and \<open>loop_vars_op\<close> perform exactly the transfers
  of \<open>layout\<close>, in its order, entry \<open>k\<close> at buffer position \<open>k\<close>: the inner X stripe (on the owning
  process only), the lower Y boundary, the bulk, the upper Y boundary, the outer X stripe (on
  the owning process only), and at each point all 2D variables in registration order followed,
  plane by plane, by all 3D variables in registration order. The layout does not depend on
  the operation.
\<close>

theorem codec_traversal_order:
  "loop_vars R m op h u = run_layout op R (layout m (length (f2d R)) (length (f3d R))) 0 (h, u)"
  by (rule loop_vars_layout)

text \<open>
  C3, as stated, fails where a registered vector is populated in the other basis than the
  declared one. In the worked instance the three components of the 3D vector are the 3D
  variables of the registry, the vector is declared covariant and holds contravariant
  components, and the covariant components are twice the contravariant ones. Every variable
  has storage. The first 3D variable holds \<open>110\<close> at the point \<open>(1,1)\<close> of plane \<open>0\<close>, which
  the traversal visits; SAVE followed by LOAD, on the store SAVE leaves, gives \<open>220\<close> there:
  SAVE converts the vector in place before it packs.
\<close>

theorem save_load_original_values_counterexample:
  "\<not> unallocated ex_registry ex_store \<and>
   (1, 1, Slot3D 0 0) \<in> set (layout ex_mesh (length (f2d ex_registry)) (length (f3d ex_registry))) \<and>
   slot_value False ex_registry ex_store (1, 1, Slot3D 0 0) = Inr 110 \<and>
   bindF (save_vars ex_lib_metric ex_mesh ex_registry ex_store ex_buffer)
     (\<lambda>r. bindF (load_vars ex_lib_metric ex_mesh ex_registry (fst (snd r)) (snd (snd r)))
        (\<lambda>h2. slot_value False ex_registry h2 (1, 1, Slot3D 0 0))) = Inr 220"
proof -
  let ?g = "declared_basis ex_lib_metric ex_registry ex_store"
  from save_load_values [OF ex_allocated ex_allocated_basis ex_buffer_fits] obtain u1 where u1:
    "save_vars ex_lib_metric ex_mesh ex_registry ex_store ex_buffer = Inr (0, ?g, u1)"
    "\<And>h'. \<exists>h2. load_vars ex_lib_metric ex_mesh ex_registry h' u1 = Inr h2 \<and>
        (\<forall>e \<in> set (layout ex_mesh (length (f2d ex_registry)) (length (f3d ex_registry))).
           \<exists>a. slot_value False ex_registry h2 e = Inr a \<and> slot_value False ex_registry ?g e = Inr a)"
    by blast
  from u1(2) [of ?g] obtain h2 where h2:
    "load_vars ex_lib_metric ex_mesh ex_registry ?g u1 = Inr h2"
    "\<forall>e \<in> set (layout ex_mesh (length (f2d ex_registry)) (length (f3d ex_registry))).
       \<exists>a. slot_value False ex_registry h2 e = Inr a \<and> slot_value False ex_registry ?g e = Inr a"
    by blast
  from h2(2) ex_entry ex_basis_value
  have "slot_value False ex_registry h2 (1, 1, Slot3D 0 0) = Inr 220" by fastforce
  with u1(1) h2(1) ex_allocated ex_entry ex_value show ?thesis by simp
qed

text \<open>
  C3, amended. Every registered 2D and 3D variable has storage, before and after the basis
  conversions of SAVE, and the buffer is as long as the layout. Then SAVE returns \<open>0\<close> and
  leaves the store as its conversions of the registered vectors to their declared basis made
  it. LOAD of the buffer SAVE filled, into any store whatever (the one SAVE left, one that
  was changed since, one with no storage at all), returns, and then at every entry of the
  layout (every registered variable at every point the traversal visits, on every plane)
  the variable holds the value it had after the conversions of SAVE. After LOAD every
  registered vector carries the flag of its declared basis, when no vector is registered
  twice. For a registry without vectors the conversions change nothing, and the values are
  those before SAVE. Variables that share storage are covered: the registry holds pointers.
\<close>

theorem save_load_round_trip:
  assumes "\<not> unallocated R h" and "\<not> unallocated R (declared_basis L R h)"
    and "length (layout m (length (f2d R)) (length (f3d R))) \<le> length u"
  shows "\<exists>u1. save_vars L m R h u = Inr (0, declared_basis L R h, u1) \<and>
           (\<forall>h'. \<exists>h2. load_vars L m R h' u1 = Inr h2 \<and>
              (\<forall>e \<in> set (layout m (length (f2d R)) (length (f3d R))).
                 \<exists>a. slot_value False R h2 e = Inr a \<and>
                     slot_value False R (declared_basis L R h) e = Inr a) \<and>
              (distinct (map var (v2d R)) \<longrightarrow>
                 (\<forall>x \<in> set (v2d R). covariant (vectors2 h2 (var x)) = vs_covariant x)) \<and>
              (distinct (map var (v3d R)) \<longrightarrow>
                 (\<forall>x \<in> set (v3d R). covariant (vectors3 h2 (var x)) = vs_covariant x))) \<and>
           (v2d R = [] \<and> v3d R = [] \<longrightarrow> declared_basis L R h = h)"
proof -
  from save_load_values [OF assms] obtain u1 where
    a: "save_vars L m R h u = Inr (0, declared_basis L R h, u1)" and
    b: "\<forall>h'. \<exists>h2. load_vars L m R h' u1 = Inr h2 \<and>
              (\<forall>e \<in> set (layout m (length (f2d R)) (length (f3d R))).
                 \<exists>a. slot_value False R h2 e = Inr a \<and>
                     slot_value False R (declared_basis L R h) e = Inr a) \<and>
              (distinct (map var (v2d R)) \<longrightarrow>
                 (\<forall>x \<in> set (v2d R). covariant (vectors2 h2 (var x)) = vs_covariant x)) \<and>
              (distinct (map var (v3d R)) \<longrightarrow>
                 (\<forall>x \<in> set (v3d R). covariant (vectors3 h2 (var x)) = vs_covariant x))"
    by (elim exE conjE)
  have c: "v2d R = [] \<and> v3d R = [] \<longrightarrow> declared_basis L R h = h"
    by (simp add: declared_basis_no_vectors)
  show ?thesis by (rule exI [of _ u1]) (rule conjI [OF a conjI [OF b c]])
qed

theorem save_load_round_trip_witness:
  "\<not> unallocated ex_registry ex_store \<and>
   \<not> unallocated ex_registry (declared_basis ex_lib_metric ex_registry ex_store) \<and>
   length (layout ex_mesh (length (f2d ex_registry)) (length (f3d ex_registry))) \<le> length ex_buffer \<and>
   (\<exists>u1 h2. save_vars ex_lib_metric ex_mesh ex_registry ex_store ex_buffer =
                Inr (0, declared_basis ex_lib_metric ex_registry ex_store, u1) \<and>
       load_vars ex_lib_metric ex_mesh ex_registry ex_store_blank u1 = Inr h2 \<and>
       slot_value False ex_registry h2 (1, 1, Slot3D 0 0) = Inr 220 \<and>
       covariant (vectors3 h2 0))"
proof -
  let ?g = "declared_basis ex_lib_metric ex_registry ex_store"
  let ?es = "layout ex_mesh (length (f2d ex_registry)) (length (f3d ex_registry))"
  from save_load_round_trip [OF ex_allocated ex_allocated_basis ex_buffer_fits] obtain u1 where u1:
    "save_vars ex_lib_metric ex_mesh ex_registry ex_store ex_buffer = Inr (0, ?g, u1)"
    "\<And>h'. \<exists>h2. load_vars ex_lib_metric ex_mesh ex_registry h' u1 = Inr h2 \<and>
        (\<forall>e \<in> set ?es.
           \<exists>a. slot_value False ex_registry h2 e = Inr a \<and> slot_value False ex_registry ?g e = Inr a) \<and>
        (distinct (map var (v2d ex_registry)) \<longrightarrow>
           (\<forall>x \<in> set (v2d ex_registry). covariant (vectors2 h2 (var x)) = vs_covariant x)) \<and>
        (distinct (map var (v3d ex_registry)) \<longrightarrow>
           (\<forall>x \<in> set (v3d ex_registry). covariant (vectors3 h2 (var x)) = vs_covariant x))"
    by blast
  from u1(2) [of ex_store_blank] obtain h2 where h2:
    "load_vars ex_lib_metric ex_mesh ex_registry ex_store_blank u1 = Inr h2"
    "\<forall>e \<in> set ?es.
       \<exists>a. slot_value False ex_registry h2 e = Inr a \<and> slot_value False ex_registry ?g e = Inr a"
    "distinct (map var (v3d ex_registry)) \<longrightarrow>
       (\<forall>x \<in> set (v3d ex_registry). covariant (vectors3 h2 (var x)) = vs_covariant x)"
    by blast
  from h2(2) ex_entry ex_basis_value
  have "slot_value False ex_registry h2 (1, 1, Slot3D 0 0) = Inr 220" by fastforce
  moreover from h2(3) ex_distinct have "covariant (vectors3 h2 0)" by (simp add: ex_registry_def)
  ultimately show ?thesis
    using u1(1) h2(1) ex_allocated ex_allocated_basis ex_buffer_fits by blast
qed

text \<open>
  C4. \<open>save_vars\<close> returns the error code \<open>1\<close> to its caller exactly when some registered 2D or
  3D variable has no storage, and then the store and the buffer are as they were: nothing
  is written and no basis conversion is made.
\<close>

theorem save_vars_initial_error:
  "((\<exists>h' u'. save_vars L m R h u = Inr (1, h', u')) = unallocated R h) \<and>
   (unallocated R h \<longrightarrow> save_vars L m R h u = Inr (1, h, u))"
proof -
  have "save_vars L m R h u \<noteq> Inr (1, h', u')" if "\<not> unallocated R h" for h' u'
    unfolding save_vars_allocated [OF that]
    by (cases "loop_vars R m SAVE_VARS (declared_basis L R h) u") simp_all
  then show ?thesis using save_vars_unallocated [of R h L m u] by blast
qed

theorem save_vars_initial_error_witness:
  "unallocated ex_registry ex_store_unset \<and>
   save_vars ex_lib ex_mesh ex_registry ex_store_unset ex_buffer = Inr (1, ex_store_unset, ex_buffer)"
  using save_vars_initial_error [of ex_lib ex_mesh ex_registry ex_store_unset ex_buffer]
    ex_unset_unallocated
  by blast

section \<open>Properties of the driver\<close>

text \<open>The residual callback returns exactly when LOAD and SAVE\_DERIVS do.\<close>

lemma rhs_returns_iff:
  "(\<exists>rc s' du. rhs L m F t ud dud s = Inr (rc, s', du)) =
   (\<exists>h1 r. load_vars L m (vars s) (store s) ud = Inr h1 \<and>
      save_derivs L m (vars (snd (F t (s\<lparr>store := h1\<rparr>))))
        (store (snd (F t (s\<lparr>store := h1\<rparr>)))) dud = Inr r)"
proof (cases "load_vars L m (vars s) (store s) ud")
  case (Inl e)
  then show ?thesis by (simp add: rhs_def)
next
  case (Inr h1)
  then show ?thesis
    by (cases "save_derivs L m (vars (snd (F t (s\<lparr>store := h1\<rparr>))))
                 (store (snd (F t (s\<lparr>store := h1\<rparr>)))) dud")
      (simp_all add: rhs_def Let_def)
qed

text \<open>
  What a call of \<open>rhs\<close> that returns leaves, in terms of the solver \<open>sa\<close> as \<open>run_rhs\<close> left it:
  the return code is \<open>0\<close> and \<open>t\<close> is recorded as the simulation time; when \<open>t >= next_time\<close>
  the iteration counter is one higher, the two counters are zero, the flag is cleared and
  the next output time is \<open>t + tstep\<close>; otherwise these members are as \<open>run_rhs\<close> left them.
\<close>

lemma rhs_schedule:
  assumes "rhs L m F t ud dud s = Inr (rc, s', du)"
  shows "\<exists>h1. load_vars L m (vars s) (store s) ud = Inr h1 \<and> rc = 0 \<and> simtime s' = t \<and>
           (let sa = snd (F t (s\<lparr>store := h1\<rparr>)) in
            if next_time sa \<le> t
            then iteration s' = iteration sa + 1 \<and> rhs_ncalls s' = 0 \<and> rhs_wtime s' = 0 \<and>
                 \<not> outputnext s' \<and> next_time s' = t + tstep sa
            else iteration s' = iteration sa \<and> rhs_ncalls s' = rhs_ncalls sa \<and>
                 rhs_wtime s' = rhs_wtime sa \<and> outputnext s' = outputnext sa \<and>
                 next_time s' = next_time sa)"
proof -
  from assms obtain h1 where h1: "load_vars L m (vars s) (store s) ud = Inr h1"
    by (cases "load_vars L m (vars s) (store s) ud") (simp_all add: rhs_def)
  let ?sa = "snd (F t (s\<lparr>store := h1\<rparr>))"
  from assms h1 obtain r where r: "save_derivs L m (vars ?sa) (store ?sa) dud = Inr r"
    by (cases "save_derivs L m (vars ?sa) (store ?sa) dud") (simp_all add: rhs_def Let_def)
  from assms h1 r show ?thesis
    by (auto simp: rhs_def Let_def split: if_splits)
qed

text \<open>
  C2, evaluated where \<open>t\<close> has passed the output time: \<open>rhs\<close> is called at \<open>t = 12\<close> with the
  next output due at \<open>10\<close> and an interval of \<open>10\<close>, on a solver whose counters stand at \<open>7\<close>
  calls and \<open>3\<close> seconds. The call returns \<open>0\<close>, the iteration counter goes from \<open>0\<close> to \<open>1\<close> and
  both counters are reset to zero, but the next output time is left at \<open>22\<close>, which is
  \<open>t + tstep\<close>, and not at \<open>20\<close>, the output time that was reached plus the interval. The test
  in force is \<open>t >= next_time\<close>, an ordering; the comment beside it in the source says that
  this test was not to be used, the commented-out test on \<open>outputnext\<close> was, with \<open>PreStep\<close>
  making the integrator land on the output time, which it does not do (see C8).
\<close>

theorem rhs_next_time_drifts:
  "next_time ex_solver \<le> 12 \<and>
   map_sum id (\<lambda>r. (fst r, iteration (fst (snd r)), rhs_ncalls (fst (snd r)),
                      rhs_wtime (fst (snd r)), next_time (fst (snd r))))
     (rhs ex_lib ex_mesh ex_run_rhs 12 ex_buffer ex_buffer ex_solver) = Inr (0, 1, 0, 0, 22) \<and>
   next_time ex_solver + tstep ex_solver = 20"
  by (simp add: rhs_def load_vars_def save_derivs_def loop_vars_layout ex_layout_n
      ex_registry_def ex_store_def
      ex_f2_def ex_f3_def ex_solver_def ex_run_rhs_def allocate2_def allocate3_def
      to_basis2_def to_basis3_def read_vector3_def write_vector3_def
      transfer_def ex_lib_def ex_interp_to_def ex_buffer_def Let_def store2_def store3_def)

text \<open>
  C8, evaluated where the proposed step overshoots: the integrator is at \<open>t = 5\<close> with a step
  of \<open>10\<close>, the next output is due at \<open>10\<close>. \<open>PreStep\<close> sets the flag \<open>outputnext\<close> and returns
  \<open>0\<close>, but the integrator is left as it was: its step is still \<open>10\<close>, not the \<open>5\<close> that would
  land on the output time. The clamped value is assigned to the local \<open>dt\<close> only.
\<close>

theorem PreStep_drops_clamped_step:
  "PreStep ex_ts ex_solver = (0, ex_ts, ex_solver\<lparr>outputnext := True\<rparr>) \<and>
   ts_time ex_ts + ts_time_step ex_ts \<ge> next_time ex_solver \<and>
   ts_time_step (fst (snd (PreStep ex_ts ex_solver))) = 10 \<and>
   next_time ex_solver - ts_time ex_ts = 5"
  by (simp add: PreStep_def ex_ts_def ex_solver_def Let_def)

section \<open>Properties of the operator library\<close>

text \<open>
  C5, as stated, fails for \<open>D2DY2\<close> on a 3D field: on a uniform mesh its result is not the
  index-space second derivative divided by the squared spacing but \<open>interp_to\<close> of it. Here
  a field at the cell centre is differentiated for the output location \<open>CELL_YLOW\<close>, the
  index-space primitive leaves the location alone and \<open>interp_to\<close> moves the result.
\<close>

theorem D2DY2_interp_counterexample:
  "\<not> non_uniform (coordinates ex_iface) \<and>
   D2DY2_3D ex_lib ex_iface (ex_f3 CELL_CENTRE) CELL_YLOW DIFF_DEFAULT \<noteq>
   div_3_2 ex_lib (indexD2DY2 (index ex_iface) (ex_f3 CELL_CENTRE) CELL_YLOW DIFF_DEFAULT)
     (SQ_2d ex_lib (dy (coordinates ex_iface)))"
proof -
  have "loc3d (D2DY2_3D ex_lib ex_iface (ex_f3 CELL_CENTRE) CELL_YLOW DIFF_DEFAULT) = CELL_YLOW"
    by (simp add: D2DY2_3D_def ex_lib_def ex_iface_def ex_coordinates_def ex_interp_to_def
        pw_3_2_def ex_f3_def Let_def)
  moreover have "loc3d (div_3_2 ex_lib (indexD2DY2 (index ex_iface) (ex_f3 CELL_CENTRE) CELL_YLOW DIFF_DEFAULT)
     (SQ_2d ex_lib (dy (coordinates ex_iface)))) = CELL_CENTRE"
    by (simp add: ex_lib_def ex_iface_def pw_3_2_def ex_f3_def)
  moreover have "\<not> non_uniform (coordinates ex_iface)"
    by (simp add: ex_iface_def ex_coordinates_def)
  ultimately show ?thesis by auto
qed

text \<open>
  C5, amended: with the non-uniform flag false, \<open>D2DX2\<close> (on 3D and on 2D fields) and \<open>D2DY2\<close>
  on 2D fields return the index-space second derivative divided by the squared spacing and
  nothing else; with the flag true they add \<open>d1 * index_first_derivative / spacing\<close> to it
  (for 3D fields with the default method). \<open>D2DY2\<close> on a 3D field computes the same value and
  returns \<open>interp_to\<close> of it at the output location, in both cases.
\<close>

theorem second_derivative_nonuniform:
  "D2DX2_3D L M f outloc method =
     (if non_uniform (coordinates M)
      then add_3_3 L (div_3_2 L (indexD2DX2 (index M) f outloc method) (SQ_2d L (dx (coordinates M))))
             (div_3_2 L (mul_2_3 L (d1_dx (coordinates M)) (indexDDX (index M) f outloc DIFF_DEFAULT))
                (dx (coordinates M)))
      else div_3_2 L (indexD2DX2 (index M) f outloc method) (SQ_2d L (dx (coordinates M)))) \<and>
   D2DX2_2D L M g =
     (if non_uniform (coordinates M)
      then add_2_2 L (div_2_2 L (indexD2DX2_2d (index M) g) (SQ_2d L (dx (coordinates M))))
             (div_2_2 L (mul_2_2 L (d1_dx (coordinates M)) (indexDDX_2d (index M) g))
                (dx (coordinates M)))
      else div_2_2 L (indexD2DX2_2d (index M) g) (SQ_2d L (dx (coordinates M)))) \<and>
   D2DY2_3D L M f outloc method =
     interp_to L
       (if non_uniform (coordinates M)
        then add_3_3 L (div_3_2 L (indexD2DY2 (index M) f outloc method) (SQ_2d L (dy (coordinates M))))
               (div_3_2 L (mul_2_3 L (d1_dy (coordinates M)) (indexDDY (index M) f outloc DIFF_DEFAULT))
                  (dy (coordinates M)))
        else div_3_2 L (indexD2DY2 (index M) f outloc method) (SQ_2d L (dy (coordinates M))))
       outloc \<and>
   D2DY2_2D L M g =
     (if non_uniform (coordinates M)
      then add_2_2 L (div_2_2 L (indexD2DY2_2d (index M) g) (SQ_2d L (dy (coordinates M))))
             (div_2_2 L (mul_2_2 L (d1_dy (coordinates M)) (indexDDY_2d (index M) g))
                (dy (coordinates M)))
      else div_2_2 L (indexD2DY2_2d (index M) g) (SQ_2d L (dy (coordinates M))))"
  by (simp add: D2DX2_3D_def D2DX2_2D_def D2DY2_3D_def D2DY2_2D_def Let_def)

lemma DDZ_Vector3D_component:
  "component j (DDZ_Vector3D L M v outloc method) =
     (if covariant v
      then sub_3_3 L (sub_3_3 L (sub_3_3 L (DDZ_3D L M (component j v) outloc method False)
             (mul_3_2 L (component AX v) (Gamma3 (coordinates M) AX j)))
             (mul_3_2 L (component AY v) (Gamma3 (coordinates M) AY j)))
             (mul_3_2 L (component AZ v) (Gamma3 (coordinates M) AZ j))
      else add_3_3 L (add_3_3 L (add_3_3 L (DDZ_3D L M (component j v) outloc method False)
             (mul_3_2 L (component AX v) (Gamma3 (coordinates M) j AX)))
             (mul_3_2 L (component AY v) (Gamma3 (coordinates M) j AY)))
             (mul_3_2 L (component AZ v) (Gamma3 (coordinates M) j AZ)))"
  by (cases j) (simp_all add: DDZ_Vector3D_def Let_def)

text \<open>
  In the worked instance only \<open>G1_23\<close> is not zero. The covariant formula for the \<open>x\<close>
  component reads \<open>G1_13\<close>, \<open>G2_13\<close>, \<open>G3_13\<close> and leaves the Z derivative \<open>111\<close> at the point
  \<open>(1,1,1)\<close>; the contravariant formula reads \<open>G1_13\<close>, \<open>G1_23\<close>, \<open>G1_33\<close> and adds the \<open>y\<close>
  component.
\<close>

lemma ex_DDZ_covariant_x:
  "value_at (comp_x (DDZ_Vector3D ex_lib ex_iface (ex_vec True) CELL_DEFAULT DIFF_DEFAULT)) 1 1 1 =
     Some 111"
  by (simp add: DDZ_Vector3D_def DDZ_3D_def ex_lib_def ex_iface_def ex_coordinates_def ex_vec_def
      ex_f3_def ex_c2_def pw_3_2_def pw_3_3_def pw_3_r_def value_at_def Let_def)

lemma ex_DDZ_contravariant_x:
  "value_at (comp_x (DDZ_Vector3D ex_lib ex_iface (ex_vec False) CELL_DEFAULT DIFF_DEFAULT)) 1 1 1 =
     Some 222"
  by (simp add: DDZ_Vector3D_def DDZ_3D_def ex_lib_def ex_iface_def ex_coordinates_def ex_vec_def
      ex_f3_def ex_c2_def pw_3_2_def pw_3_3_def pw_3_r_def value_at_def Let_def)

lemma ex_DDZ_bases_differ:
  "comp_x (DDZ_Vector3D ex_lib ex_iface (ex_vec True) CELL_DEFAULT DIFF_DEFAULT) \<noteq>
   comp_x (DDZ_Vector3D ex_lib ex_iface (ex_vec False) CELL_DEFAULT DIFF_DEFAULT)"
proof
  assume "comp_x (DDZ_Vector3D ex_lib ex_iface (ex_vec True) CELL_DEFAULT DIFF_DEFAULT) =
          comp_x (DDZ_Vector3D ex_lib ex_iface (ex_vec False) CELL_DEFAULT DIFF_DEFAULT)"
  then have "value_at (comp_x (DDZ_Vector3D ex_lib ex_iface (ex_vec True) CELL_DEFAULT DIFF_DEFAULT)) 1 1 1 =
             value_at (comp_x (DDZ_Vector3D ex_lib ex_iface (ex_vec False) CELL_DEFAULT DIFF_DEFAULT)) 1 1 1"
    by (rule arg_cong)
  then show False by (simp only: ex_DDZ_covariant_x ex_DDZ_contravariant_x) simp
qed

text \<open>
  C6. \<open>DDZ\<close> of a 3D vector keeps the basis flag. For a covariant vector the component \<open>j\<close>
  of the result is the Z derivative of the component \<open>j\<close> minus, one after the other, the
  components \<open>x, y, z\<close> times the Christoffel symbols with upper index \<open>x, y, z\<close> and lower
  indices \<open>j\<close> and \<open>z\<close>. For a contravariant vector the products are added, and the indices
  are transposed: upper index \<open>j\<close>, lower indices \<open>x, y, z\<close> and \<open>z\<close>. The two formulas differ
  as functions: on the worked instance they give different \<open>x\<close> components for the same
  three component fields.
\<close>

theorem DDZ_Vector3D_christoffel:
  "covariant (DDZ_Vector3D L M v outloc method) = covariant v \<and>
   (\<forall>j. component j (DDZ_Vector3D L M v outloc method) =
     (if covariant v
      then sub_3_3 L (sub_3_3 L (sub_3_3 L (DDZ_3D L M (component j v) outloc method False)
             (mul_3_2 L (component AX v) (Gamma3 (coordinates M) AX j)))
             (mul_3_2 L (component AY v) (Gamma3 (coordinates M) AY j)))
             (mul_3_2 L (component AZ v) (Gamma3 (coordinates M) AZ j))
      else add_3_3 L (add_3_3 L (add_3_3 L (DDZ_3D L M (component j v) outloc method False)
             (mul_3_2 L (component AX v) (Gamma3 (coordinates M) j AX)))
             (mul_3_2 L (component AY v) (Gamma3 (coordinates M) j AY)))
             (mul_3_2 L (component AZ v) (Gamma3 (coordinates M) j AZ)))) \<and>
   comp_x (DDZ_Vector3D ex_lib ex_iface (ex_vec True) CELL_DEFAULT DIFF_DEFAULT) \<noteq>
   comp_x (DDZ_Vector3D ex_lib ex_iface (ex_vec False) CELL_DEFAULT DIFF_DEFAULT)"
proof (intro conjI allI)
  show "covariant (DDZ_Vector3D L M v outloc method) = covariant v"
    by (simp add: DDZ_Vector3D_def Let_def)
qed (rule DDZ_Vector3D_component, rule ex_DDZ_bases_differ)

text \<open>
  C7, evaluated on a 2D field at \<open>CELL_XLOW\<close>: \<open>DDZ\<close> and \<open>D2DZ2\<close> return the zero field, but
  at the location a construction gives (here the cell centre) and not at the location of the
  input; \<open>D4DZ4\<close> copies the location of its input.
\<close>

theorem DDZ_Field2D_location:
  "loc2d (ex_f2 CELL_XLOW) = CELL_XLOW \<and>
   loc2d (DDZ_Field2D ex_lib (ex_f2 CELL_XLOW)) = CELL_CENTRE \<and>
   loc2d (D2DZ2_Field2D ex_lib (ex_f2 CELL_XLOW)) = CELL_CENTRE \<and>
   loc2d (D4DZ4_Field2D ex_lib (ex_f2 CELL_XLOW)) = CELL_XLOW \<and>
   data2d (DDZ_Field2D ex_lib (ex_f2 CELL_XLOW)) = Some (\<lambda>jx jy. 0) \<and>
   data2d (D2DZ2_Field2D ex_lib (ex_f2 CELL_XLOW)) = Some (\<lambda>jx jy. 0)"
  by (simp add: DDZ_Field2D_def D2DZ2_Field2D_def D4DZ4_Field2D_def Field2D_const_def ex_f2_def
      ex_lib_def Let_def)

text \<open>
  Where an operator has an overload taking the differencing method before the output
  location, that overload returns what the overload taking the location first returns.
\<close>

lemma twin_overloads_agree:
  "DDX_3D_ml L M f method outloc = DDX_3D L M f outloc method \<and>
   DDY_3D_ml L M f method outloc = DDY_3D L M f outloc method \<and>
   DDZ_3D_ml L M f method outloc inc_xbndry = DDZ_3D L M f outloc method inc_xbndry \<and>
   DDZ_Vector3D_ml L M w method outloc = DDZ_Vector3D L M w outloc method \<and>
   D2DX2_3D_ml L M f method outloc = D2DX2_3D L M f outloc method \<and>
   D2DY2_3D_ml L M f method outloc = D2DY2_3D L M f outloc method \<and>
   D2DZ2_3D_ml L M f method outloc inc_xbndry = D2DZ2_3D L M f outloc method inc_xbndry \<and>
   VDDX_ml L M a b method outloc = VDDX L M a b outloc method \<and>
   VDDY_ml L M a b method outloc = VDDY L M a b outloc method \<and>
   VDDZ_ml L M a b method outloc = VDDZ L M a b outloc method \<and>
   FDDX_2D_ml L M p q method outloc = FDDX_2D L M p q outloc method \<and>
   FDDX_3D_ml L M g f method outloc = FDDX_3D L M g f outloc method \<and>
   FDDY_2D_ml L M p q method outloc = FDDY_2D L M p q outloc method \<and>
   FDDY_3D_ml L M g f method outloc = FDDY_3D L M g f outloc method \<and>
   FDDZ_2D_ml L M p q method outloc = FDDZ_2D L M p q outloc method \<and>
   FDDZ_3D_ml L M g f method outloc = FDDZ_3D L M g f outloc method"
  by (simp add: DDX_3D_ml_def DDY_3D_ml_def DDZ_3D_ml_def DDZ_Vector3D_ml_def D2DX2_3D_ml_def
      D2DY2_3D_ml_def D2DZ2_3D_ml_def VDDX_ml_def VDDY_ml_def VDDZ_ml_def FDDX_2D_ml_def
      FDDX_3D_ml_def FDDY_2D_ml_def FDDY_3D_ml_def FDDZ_2D_def FDDZ_3D_ml_def)

text \<open>
  C9, on \<open>VDDX\<close> and \<open>VDDY\<close> of two 2D fields. With the location first the call binds to the
  overload on \<open>Field2D\<close>, which divides the 2D primitive of the mesh by the spacing and returns
  a \<open>Field2D\<close>. That overload has no twin taking the method first (\<open>FDDX\<close> and \<open>FDDY\<close> on
  \<open>Field2D\<close> have one), so with the method first the same two fields bind, as references to
  \<open>Field\<close>, to the general overload: it divides the general primitive of the mesh by the spacing
  and returns a \<open>Field3D\<close>. The two calls go through different primitives and return objects
  of different classes, for every input.
\<close>

theorem VDDX_VDDY_2D_order_sensitive:
  "VDDX_ml L M (F2 v) (F2 f) method outloc =
     div_3_2 L (indexVDDX (flux M) (F2 v) (F2 f) outloc method) (dx (coordinates M)) \<and>
   VDDX_2D L M v f outloc method =
     div_2_2 L (indexVDDX_2d (flux M) v f outloc method) (dx (coordinates M)) \<and>
   F3 (VDDX_ml L M (F2 v) (F2 f) method outloc) \<noteq> F2 (VDDX_2D L M v f outloc method) \<and>
   VDDY_ml L M (F2 v) (F2 f) method outloc =
     div_3_2 L (indexVDDY (flux M) (F2 v) (F2 f) outloc method) (dy (coordinates M)) \<and>
   VDDY_2D L M v f outloc method =
     div_2_2 L (indexVDDY_2d (flux M) v f outloc method) (dy (coordinates M)) \<and>
   F3 (VDDY_ml L M (F2 v) (F2 f) method outloc) \<noteq> F2 (VDDY_2D L M v f outloc method)"
  by (simp add: VDDX_ml_def VDDX_def VDDX_2D_def VDDY_ml_def VDDY_def VDDY_2D_def)

text \<open>
  C10. \<open>DDZ\<close> of a 2D vector has zero at every point of its \<open>x\<close>, \<open>y\<close> and \<open>z\<close> components and
  the basis flag of its argument.
\<close>

theorem DDZ_Vector2D_zero:
  "data2d (comp_x (DDZ_Vector2D L v)) = Some (\<lambda>jx jy. 0) \<and>
   data2d (comp_y (DDZ_Vector2D L v)) = Some (\<lambda>jx jy. 0) \<and>
   data2d (comp_z (DDZ_Vector2D L v)) = Some (\<lambda>jx jy. 0) \<and>
   covariant (DDZ_Vector2D L v) = covariant v"
  by (simp add: DDZ_Vector2D_def assign_real_def Field2D_empty_def Let_def)

end
